theory Spec2Isabelle
  imports Complex_Main "HOL-Library.Word"
begin

unbundle bit_operations_syntax

section \<open>LayerSnapshotBuilder: geometry primitives\<close>

text \<open>
  The builder lives in \<^verbatim>\<open>services/surfaceflinger/FrontEnd/LayerSnapshotBuilder.cpp\<close>.
  Coordinates of \<^verbatim>\<open>Rect\<close> are \<^verbatim>\<open>int32_t\<close> and are 32-bit words here, read
  through \<open>sint\<close>. Coordinates of \<^verbatim>\<open>FloatRect\<close>, alpha values and radii are
  floats; they are read as the real numbers they denote. The conversions of the library
  between float and integer are parameters of the model; the builder's own
  \<^verbatim>\<open>static_cast<int32_t>\<close> is \<open>static_cast_i32\<close> below.
\<close>

type_synonym i32 = "32 word"

record rect =
  left :: i32
  top :: i32
  right :: i32
  bottom :: i32

record frect =
  fleft :: real
  ftop :: real
  fright :: real
  fbottom :: real

text \<open>
  \<^verbatim>\<open>ui::Transform\<close> and \<^verbatim>\<open>Region\<close> are library types whose code is not part of
  the builder. Their operations are the fields of \<open>geom\<close>; the builder's functions take
  a \<open>geom\<close> and are defined for every such library.
\<close>

record ('t, 'r) geom =
  t_identity :: 't                           \<comment> \<open>a default-constructed or reset transform\<close>
  t_mul :: "'t \<Rightarrow> 't \<Rightarrow> 't"                  \<comment> \<open>\<^verbatim>\<open>operator*\<close>\<close>
  t_inverse :: "'t \<Rightarrow> 't"
  t_tx :: "'t \<Rightarrow> real"
  t_ty :: "'t \<Rightarrow> real"
  t_set :: "'t \<Rightarrow> real \<Rightarrow> real \<Rightarrow> 't"         \<comment> \<open>\<^verbatim>\<open>set(tx, ty)\<close>: replace the translation\<close>
  t_isIdentity :: "'t \<Rightarrow> bool"              \<comment> \<open>\<^verbatim>\<open>getType() == IDENTITY\<close>\<close>
  t_scaleX :: "'t \<Rightarrow> real"
  t_scaleY :: "'t \<Rightarrow> real"
  t_rect :: "'t \<Rightarrow> rect \<Rightarrow> rect"            \<comment> \<open>\<^verbatim>\<open>transform(Rect)\<close>\<close>
  t_frect :: "'t \<Rightarrow> frect \<Rightarrow> frect"         \<comment> \<open>\<^verbatim>\<open>transform(FloatRect)\<close>\<close>
  t_region :: "'t \<Rightarrow> 'r \<Rightarrow> 'r"              \<comment> \<open>\<^verbatim>\<open>transform(Region)\<close>\<close>
  t_isValid :: "'t \<Rightarrow> bool"                 \<comment> \<open>\<^verbatim>\<open>LayerSnapshot::isTransformValid\<close>\<close>
  r_empty :: 'r                              \<comment> \<open>a default-constructed or cleared region\<close>
  r_rects :: "'r \<Rightarrow> rect list"              \<comment> \<open>the rectangles iterated by \<^verbatim>\<open>begin()..end()\<close>\<close>
  r_orSelf :: "'r \<Rightarrow> rect \<Rightarrow> 'r"
  r_ofRect :: "rect \<Rightarrow> 'r"                  \<comment> \<open>\<^verbatim>\<open>Region(Rect)\<close>\<close>
  r_intersect :: "'r \<Rightarrow> rect \<Rightarrow> 'r"
  rect_of_frect :: "frect \<Rightarrow> rect"          \<comment> \<open>\<^verbatim>\<open>Rect(FloatRect)\<close>\<close>
  size_to_real :: "i32 \<Rightarrow> real"             \<comment> \<open>\<^verbatim>\<open>static_cast<float>\<close> of an \<^verbatim>\<open>int32_t\<close>\<close>

subsection \<open>transformTouchableRegionSafely\<close>

text \<open>
  \<^verbatim>\<open>static_cast<int32_t>\<close> of a floating value drops the fractional part: it truncates
  toward zero. Where the truncated value is not an \<^verbatim>\<open>int32_t\<close> the conversion is
  undefined in C++; the statements below use it on values in range only.
\<close>

definition static_cast_i32 :: "real \<Rightarrow> i32" where
  "static_cast_i32 x = word_of_int (if 0 \<le> x then \<lfloor>x\<rfloor> else \<lceil>x\<rceil>)"

text \<open>
  \<^verbatim>\<open>__builtin_add_overflow(a, b, &res)\<close> on \<^verbatim>\<open>int32_t\<close>: the first component says
  whether the exact sum leaves the range of the type, the second is the wrapped sum
  stored in \<^verbatim>\<open>res\<close>.
\<close>

definition add_overflow :: "i32 \<Rightarrow> i32 \<Rightarrow> bool \<times> i32" where
  "add_overflow a b =
     (sint a + sint b < - (2 ^ 31) \<or> 2 ^ 31 \<le> sint a + sint b, a + b)"

text \<open>The body of the loop for one rectangle: \<open>None\<close> is the \<^verbatim>\<open>continue\<close>.\<close>

definition translateRect :: "i32 \<Rightarrow> i32 \<Rightarrow> rect \<Rightarrow> rect option" where
  "translateRect tx ty r =
     (if fst (add_overflow (left r) tx) \<or> fst (add_overflow (top r) ty) \<or>
         fst (add_overflow (right r) tx) \<or> fst (add_overflow (bottom r) ty)
      then None
      else Some \<lparr>left = snd (add_overflow (left r) tx), top = snd (add_overflow (top r) ty),
                 right = snd (add_overflow (right r) tx),
                 bottom = snd (add_overflow (bottom r) ty)\<rparr>)"

fun translateLoop :: "('t, 'r) geom \<Rightarrow> i32 \<Rightarrow> i32 \<Rightarrow> rect list \<Rightarrow> 'r \<Rightarrow> 'r" where
  "translateLoop g tx ty [] ret = ret"
| "translateLoop g tx ty (r # rs) ret =
     (case translateRect tx ty r of
        None \<Rightarrow> translateLoop g tx ty rs ret
      | Some newRect \<Rightarrow> translateLoop g tx ty rs (r_orSelf g ret newRect))"

definition transformTouchableRegionSafely :: "('t, 'r) geom \<Rightarrow> 't \<Rightarrow> 'r \<Rightarrow> 'r" where
  "transformTouchableRegionSafely g t r =
     (let tx = static_cast_i32 (t_tx g t + 1 / 2);
          ty = static_cast_i32 (t_ty g t + 1 / 2);
          transformWithoutOffset = t_set g t 0 0;
          transformed = t_region g transformWithoutOffset r
      in translateLoop g tx ty (r_rects g transformed) (r_empty g))"

section \<open>Data model\<close>

text \<open>
  \<^verbatim>\<open>RequestedLayerState::Changes\<close> is a flag enum; a value of
  \<^verbatim>\<open>ftl::Flags<Changes>\<close> is the set of flags that are on, so \<^verbatim>\<open>test(f)\<close> is
  membership, \<^verbatim>\<open>any(m)\<close> a non-empty intersection, \<^verbatim>\<open>get() == 0\<close> emptiness and
  \<^verbatim>\<open>|\<close>, \<^verbatim>\<open>&\<close> union and intersection.
\<close>

datatype change = Created | Destroyed | Hierarchy | Geometry | Content | Input | Z | Mirror
  | Parent | RelativeParent | Metadata | Visibility | AffectsChildren | Buffer

datatype variant = Attached | Detached | Relative | MirrorVariant

datatype dropInputMode = Drop_NONE | Drop_ALL | Drop_OBSCURED

datatype inputConfig = NO_INPUT_CHANNEL | NOT_VISIBLE | NOT_TOUCHABLE | TRUSTED_OVERLAY
  | DROP_INPUT | DROP_INPUT_IF_OBSCURED | CLONE

datatype blendMode = BlendNONE | PREMULTIPLIED | COVERAGE

text \<open>
  \<^verbatim>\<open>LayerHierarchy::TraversalPath\<close>: the key of one occurrence of a layer. The snapshot's
  \<^verbatim>\<open>path.id\<close> is the leaf layer id.
\<close>

record path =
  p_id :: nat
  p_variant :: variant
  mirrorRootIds :: "nat list"
  relativeRootIds :: "nat list"

record texture =
  tex_id :: nat
  tex_buffer :: "nat option"   \<comment> \<open>\<^verbatim>\<open>getBuffer()\<close>\<close>
  tex_usage :: "64 word"       \<comment> \<open>\<^verbatim>\<open>getUsage()\<close>\<close>

record bufferData =
  bd_acquireFence :: "nat option"
  bd_frameNumber :: nat
  bd_pixelFormat :: nat        \<comment> \<open>\<^verbatim>\<open>getPixelFormat()\<close>\<close>

record roundedCornerState =
  cropRect :: frect
  radius_x :: real
  radius_y :: real

record stretchEffect =
  se_hasEffect :: bool     \<comment> \<open>the value of \<^verbatim>\<open>hasEffect()\<close>\<close>
  se_data :: nat

record shadowSettings =
  boundaries :: frect
  ambientColor :: "real list"
  spotColor :: "real list"
  lightPos :: nat
  lightRadius :: real
  sh_length :: real
  casterIsTranslucent :: bool

record ('t, 'r) windowInfo =
  touchableRegion :: 'r
  inputConfig :: "inputConfig set"
  surfaceInset :: i32
  frameLeft :: i32
  frameTop :: i32
  frameRight :: i32
  frameBottom :: i32
  wi_transform :: 't
  displayId :: i32
  wi_alpha :: real
  touchOcclusionMode :: nat
  replaceTouchableRegionWithCrop :: bool

record ('t, 'r) snapshot =
  path :: path
  globalZ :: nat
  changes :: "change set"
  contentDirty :: bool
  isHiddenByPolicyFromParent :: bool
  isHiddenByPolicyFromRelativeParent :: bool
  isVisible :: bool
  parentTransform :: 't
  geomLayerTransform :: 't
  geomInverseLayerTransform :: 't
  localTransform :: 't
  localTransformInverse :: 't
  invalidTransform :: bool
  geomLayerBounds :: frect
  transformedBounds :: frect
  croppedBufferSize :: rect
  bufferSize :: rect
  geomBufferSize :: rect
  geomCrop :: rect
  geomContentCrop :: rect
  cursorFrame :: rect
  bufferNeedsFiltering :: bool
  roundedCorner :: roundedCornerState
  stretchEffect :: stretchEffect
  layerStack :: nat                 \<comment> \<open>\<^verbatim>\<open>outputFilter.layerStack\<close>\<close>
  toInternalDisplay :: bool         \<comment> \<open>\<^verbatim>\<open>outputFilter.toInternalDisplay\<close>\<close>
  isSecure :: bool
  isTrustedOverlay :: bool
  color_a :: real                   \<comment> \<open>\<^verbatim>\<open>color.a\<close>\<close>
  color_rgb :: "real list"          \<comment> \<open>\<^verbatim>\<open>color.rgb\<close>\<close>
  alpha :: real
  colorTransform :: nat
  colorTransformIsIdentity :: bool
  shadowRadius :: real
  shadowSettings :: shadowSettings
  layerMetadata :: "(nat \<times> nat) list"
  relativeLayerMetadata :: "(nat \<times> nat) list"
  inputInfo :: "('t, 'r) windowInfo"
  dropInputMode :: dropInputMode
  compositionType :: nat
  dimmingEnabled :: bool
  layerOpaqueFlagSet :: bool
  acquireFence :: "nat option"      \<comment> \<open>\<open>None\<close> is \<^verbatim>\<open>Fence::NO_FENCE\<close>\<close>
  buffer :: "nat option"            \<comment> \<open>\<open>None\<close> is \<^verbatim>\<open>nullptr\<close>\<close>
  dataspace :: nat
  externalTexture :: "texture option"
  frameNumber :: nat
  geomBufferTransform :: nat
  geomBufferUsesDisplayInverseTransform :: bool
  geomUsesSourceCrop :: bool
  hasProtectedContent :: bool
  isHdrY410 :: bool
  sidebandStream :: "nat option"
  surfaceDamage :: 'r
  transparentRegionHint :: 'r
  isColorspaceAgnostic :: bool
  backgroundBlurRadius :: int
  blurRegions :: "nat list"
  hdrMetadata :: nat
  forceClientComposition :: bool
  isOpaque :: bool
  blendMode :: blendMode

text \<open>
  \<^verbatim>\<open>RequestedLayerState\<close>, the client's request for one layer. Only the fields the
  builder reads are kept; its methods are parameters (see \<open>env\<close> below).
\<close>

record 'r requested =
  r_id :: nat
  parentId :: nat
  r_changes :: "change set"
  what :: "64 word"
  flags :: "32 word"
  r_color_a :: real
  r_isTrustedOverlay :: bool
  r_layerStack :: nat
  r_stretchEffect :: stretchEffect
  r_colorTransform :: nat
  hasColorTransform :: bool
  r_dimmingEnabled :: bool
  premultipliedAlpha :: bool
  bufferData :: "bufferData option"
  r_externalTexture :: "texture option"
  r_dataspace :: nat
  api :: nat
  bufferTransform :: nat
  transformToDisplayInverse :: bool
  r_sidebandStream :: "nat option"
  surfaceDamageRegion :: 'r
  transparentRegion :: 'r
  colorSpaceAgnostic :: bool
  r_backgroundBlurRadius :: "32 word"
  r_blurRegions :: "nat list"
  r_hdrMetadata :: nat
  crop :: rect
  cornerRadius :: real
  r_shadowRadius :: real
  metadata :: "(nat \<times> nat) list"
  r_dropInputMode :: dropInputMode
  touchCropId :: nat

record 't displayInfo =
  logicalWidth :: i32        \<comment> \<open>\<^verbatim>\<open>info.logicalWidth\<close>\<close>
  logicalHeight :: i32       \<comment> \<open>\<^verbatim>\<open>info.logicalHeight\<close>\<close>
  di_transform :: 't
  isPrimary :: bool
  di_isSecure :: bool
  rotationFlags :: "32 word"

text \<open>
  \<^verbatim>\<open>LayerHierarchy\<close>: a layer and its child edges. What \<^verbatim>\<open>traverseInZOrder\<close> does with
  a visitor is the owner's business; it is given to the builder as a \<open>ztrav list\<close>:
  \<open>Visit p ks\<close> calls the visitor at \<open>p\<close> and, when the visitor answers \<open>true\<close>,
  goes on with \<open>ks\<close>; when it answers \<open>false\<close> the occurrences of \<open>ks\<close> are skipped.
\<close>

datatype 'r hierarchy = LayerHierarchy (getLayer: "'r requested")
  (mChildren: "('r hierarchy \<times> variant) list")

datatype ztrav = Visit path "ztrav list"

record ('t, 'r) args =
  forceUpdate :: bool
  displayChanges :: bool
  includeMetadata :: bool
  displays :: "(nat \<times> 't displayInfo) list"
  globalShadowSettings :: shadowSettings
  root :: "('r hierarchy \<times> variant) list"      \<comment> \<open>\<^verbatim>\<open>root.mChildren\<close>\<close>
  zOrder :: "ztrav list"                        \<comment> \<open>\<^verbatim>\<open>root.traverseInZOrder\<close>\<close>
  globalChanges :: "change set"                 \<comment> \<open>\<^verbatim>\<open>layerLifecycleManager.getGlobalChanges()\<close>\<close>
  layers :: "'r requested list"                 \<comment> \<open>\<^verbatim>\<open>layerLifecycleManager.getLayers()\<close>\<close>
  destroyedLayers :: "nat list"                 \<comment> \<open>ids of \<^verbatim>\<open>getDestroyedLayers()\<close>\<close>

text \<open>
  The code the builder calls but does not contain: methods of \<^verbatim>\<open>RequestedLayerState\<close>,
  \<^verbatim>\<open>LayerSnapshot\<close>, \<^verbatim>\<open>Rect\<close>, \<^verbatim>\<open>FloatRect\<close> and \<^verbatim>\<open>TraversalPath\<close>, and the
  constants of \<^verbatim>\<open>layer_state_t\<close> and the HAL.
\<close>

record ('t, 'r) env =
  geom :: "('t, 'r) geom"
  rq_isHiddenByPolicy :: "'r requested \<Rightarrow> bool"
  rq_getCompositionType :: "'r requested \<Rightarrow> nat"
  rq_getBufferSize :: "'r requested \<Rightarrow> 32 word \<Rightarrow> rect"
  rq_getCroppedBufferSize :: "'r requested \<Rightarrow> rect \<Rightarrow> rect"
  rq_getBufferCrop :: "'r requested \<Rightarrow> rect"
  rq_getColorRgb :: "'r requested \<Rightarrow> real list"
  rq_getTransform :: "'r requested \<Rightarrow> 32 word \<Rightarrow> 't"
  rq_getUnrotatedBufferSize :: "'r requested \<Rightarrow> 32 word \<Rightarrow> i32 \<times> i32"
  rq_hasInputInfo :: "'r requested \<Rightarrow> bool"
  rq_reduce :: "rect \<Rightarrow> 'r \<Rightarrow> rect"
  metadata_merge :: "(nat \<times> nat) list \<Rightarrow> (nat \<times> nat) list \<Rightarrow> (nat \<times> nat) list"
  colorTransform_mul :: "nat \<Rightarrow> nat \<Rightarrow> nat"
  sn_isHiddenByPolicy :: "('t, 'r) snapshot \<Rightarrow> bool"
  sn_getIsVisible :: "('t, 'r) snapshot \<Rightarrow> bool"
  sn_isContentOpaque :: "('t, 'r) snapshot \<Rightarrow> bool"
  sn_hasBufferOrSidebandStream :: "('t, 'r) snapshot \<Rightarrow> bool"
  sn_canReceiveInput :: "('t, 'r) snapshot \<Rightarrow> bool"
  newSnapshot :: "'r requested \<Rightarrow> path \<Rightarrow> ('t, 'r) snapshot"  \<comment> \<open>the constructor\<close>
  defaultSnapshot :: "('t, 'r) snapshot"        \<comment> \<open>a default-constructed \<^verbatim>\<open>LayerSnapshot\<close>\<close>
  hasRoundedCorners :: "roundedCornerState \<Rightarrow> bool"
  defaultRoundedCorner :: roundedCornerState    \<comment> \<open>\<^verbatim>\<open>RoundedCornerState()\<close>\<close>
  defaultStretchEffect :: stretchEffect
  rect_isValid :: "rect \<Rightarrow> bool"
  rect_isEmpty :: "rect \<Rightarrow> bool"
  rect_toFloatRect :: "rect \<Rightarrow> frect"
  EMPTY_RECT :: rect
  frect_isEmpty :: "frect \<Rightarrow> bool"
  frect_intersect :: "frect \<Rightarrow> frect \<Rightarrow> frect"
  frect_getWidth :: "frect \<Rightarrow> real"
  frect_getHeight :: "frect \<Rightarrow> real"
  path_isRelative :: "path \<Rightarrow> bool"
  path_isAttached :: "path \<Rightarrow> bool"
  addChildToPath :: "path \<Rightarrow> nat \<Rightarrow> variant \<Rightarrow> path"  \<comment> \<open>\<^verbatim>\<open>ScopedAddToTraversalPath\<close>\<close>
  ROOT :: path
  defaultPath :: "nat \<Rightarrow> path"                  \<comment> \<open>\<^verbatim>\<open>TraversalPath{.id = layerId}\<close>\<close>
  defaultDisplayInfo :: "'t displayInfo"        \<comment> \<open>a \<^verbatim>\<open>DisplayInfo\<close> with default members\<close>
  kEmptySize :: "i32 \<times> i32"
  UNASSIGNED_LAYER_ID :: nat
  DEFAULT_LAYER_STACK :: nat
  BLOCK_UNTRUSTED :: nat
  CONTENT_DIRTY :: "64 word"
  BUFFER_CHANGES :: "64 word"
  eLayerSecure :: "32 word"
  eLayerSkipScreenshot :: "32 word"
  eLayerOpaque :: "32 word"
  GRALLOC_USAGE_PROTECTED :: "64 word"
  BT2020_ITU_PQ :: nat
  NATIVE_WINDOW_API_MEDIA :: nat
  HAL_PIXEL_FORMAT_RGBA_1010102 :: nat

section \<open>The helpers of the anonymous namespace\<close>

text \<open>\<^verbatim>\<open>std::max\<close> on \<^verbatim>\<open>int32_t\<close>: the first argument unless it is smaller.\<close>

definition max_i32 :: "i32 \<Rightarrow> i32 \<Rightarrow> i32" where
  "max_i32 a b = (if sint a < sint b then b else a)"

definition getMaxDisplayBounds :: "('t, 'r) env \<Rightarrow> (nat \<times> 't displayInfo) list \<Rightarrow> frect" where
  "getMaxDisplayBounds e ds =
     (let maxSize =
            (if ds = [] then (5000, 5000)
             else foldl (\<lambda>size pair.
                     (max_i32 (fst size) (logicalWidth (snd pair)),
                      max_i32 (snd size) (logicalHeight (snd pair))))
                   (kEmptySize e) ds);
          xMax = size_to_real (geom e) (fst maxSize) * 10;
          yMax = size_to_real (geom e) (snd maxSize) * 10
      in \<lparr>fleft = - xMax, ftop = - yMax, fright = xMax, fbottom = yMax\<rparr>)"

definition getInputTransform :: "('t, 'r) env \<Rightarrow> ('t, 'r) snapshot \<Rightarrow> 't" where
  "getInputTransform e snapshot =
     (if \<not> sn_hasBufferOrSidebandStream e snapshot then geomLayerTransform snapshot
      else parentTransform snapshot)"

definition getInputBounds :: "('t, 'r) env \<Rightarrow> ('t, 'r) snapshot \<Rightarrow> rect" where
  "getInputBounds e snapshot =
     (if \<not> sn_hasBufferOrSidebandStream e snapshot then croppedBufferSize snapshot
      else if t_isIdentity (geom e) (localTransform snapshot) \<or>
              \<not> rect_isValid e (croppedBufferSize snapshot)
      then croppedBufferSize snapshot
      else t_rect (geom e) (localTransform snapshot) (croppedBufferSize snapshot))"

text \<open>
  \<open>inputLayerToDisplay\<close> is the local \<^verbatim>\<open>layerToDisplay\<close> of \<^verbatim>\<open>fillInputFrameInfo\<close>:
  the display's screen transform composed with the transform chosen for input.
\<close>

definition inputLayerToDisplay :: "('t, 'r) env \<Rightarrow> 't \<Rightarrow> ('t, 'r) snapshot \<Rightarrow> 't" where
  "inputLayerToDisplay e screenToDisplay snapshot =
     (let layerToScreen = getInputTransform e snapshot
      in t_mul (geom e) screenToDisplay layerToScreen)"

definition fillInputFrameInfo ::
  "('t, 'r) env \<Rightarrow> ('t, 'r) windowInfo \<Rightarrow> 't \<Rightarrow> ('t, 'r) snapshot \<Rightarrow> ('t, 'r) windowInfo" where
  "fillInputFrameInfo e info0 screenToDisplay snapshot =
     (let g = geom e;
          tmpBounds0 = getInputBounds e snapshot;
          info1 = (if \<not> rect_isValid e tmpBounds0 then info0\<lparr>touchableRegion := r_empty g\<rparr>
                   else info0);
          tmpBounds = (if \<not> rect_isValid e tmpBounds0 then EMPTY_RECT e else tmpBounds0);
          inputBoundsInLayer = rect_toFloatRect e tmpBounds;
          surfaceInset = size_to_real g (surfaceInset info1);
          xSurfaceInset = max 0 (min surfaceInset (frect_getWidth e inputBoundsInLayer / 2));
          ySurfaceInset = max 0 (min surfaceInset (frect_getHeight e inputBoundsInLayer / 2));
          insetBoundsInLayer =
            \<lparr>fleft = fleft inputBoundsInLayer + xSurfaceInset,
             ftop = ftop inputBoundsInLayer + ySurfaceInset,
             fright = fright inputBoundsInLayer - xSurfaceInset,
             fbottom = fbottom inputBoundsInLayer - ySurfaceInset\<rparr>;
          croppedInsetBoundsInLayer =
            frect_intersect e (geomLayerBounds snapshot) insetBoundsInLayer;
          layerToDisplay = inputLayerToDisplay e screenToDisplay snapshot;
          roundedFrameInDisplay =
            rect_of_frect g (t_frect g layerToDisplay croppedInsetBoundsInLayer);
          inputToLayer = t_set g (t_identity g) (fleft insetBoundsInLayer) (ftop insetBoundsInLayer);
          inputToDisplay = t_mul g layerToDisplay inputToLayer
      in info1\<lparr>frameLeft := left roundedFrameInDisplay,
                frameTop := top roundedFrameInDisplay,
                frameRight := right roundedFrameInDisplay,
                frameBottom := bottom roundedFrameInDisplay,
                wi_transform := t_inverse g inputToDisplay,
                touchableRegion :=
                  transformTouchableRegionSafely g inputToDisplay (touchableRegion info1)\<rparr>)"

text \<open>\<open>addConfig\<close> is \<^verbatim>\<open>snapshot.inputInfo.inputConfig |= flag\<close>.\<close>

definition addConfig :: "inputConfig \<Rightarrow> ('t, 'r) snapshot \<Rightarrow> ('t, 'r) snapshot" where
  "addConfig f snapshot =
     snapshot\<lparr>inputInfo := (inputInfo snapshot)\<lparr>inputConfig :=
        insert f (inputConfig (inputInfo snapshot))\<rparr>\<rparr>"

definition handleDropInputMode ::
  "('t, 'r) env \<Rightarrow> ('t, 'r) snapshot \<Rightarrow> ('t, 'r) snapshot \<Rightarrow> ('t, 'r) snapshot" where
  "handleDropInputMode e snapshot parentSnapshot =
     (if NO_INPUT_CHANNEL \<in> inputConfig (inputInfo snapshot) then snapshot
      else if dropInputMode snapshot = Drop_ALL then addConfig DROP_INPUT snapshot
      else if dropInputMode snapshot \<noteq> Drop_OBSCURED then snapshot
      else
        let s1 = (if color_a parentSnapshot \<noteq> 1 then addConfig DROP_INPUT snapshot
                  else snapshot);
            bufferSize = croppedBufferSize s1
        in if \<not> rect_isValid e bufferSize then addConfig DROP_INPUT_IF_OBSCURED s1
           else
             let bufferInScreenSpace = t_rect (geom e) (geomLayerTransform s1) bufferSize;
                 croppedByParent =
                   (bufferInScreenSpace \<noteq> rect_of_frect (geom e) (transformedBounds s1))
             in if croppedByParent then addConfig DROP_INPUT s1
                else addConfig DROP_INPUT_IF_OBSCURED s1)"

definition getBufferNeedsFiltering ::
  "('t, 'r) env \<Rightarrow> ('t, 'r) snapshot \<Rightarrow> i32 \<times> i32 \<Rightarrow> bool" where
  "getBufferNeedsFiltering e snapshot unrotatedBufferSize =
     (let layerWidth = static_cast_i32 (frect_getWidth e (geomLayerBounds snapshot));
          layerHeight = static_cast_i32 (frect_getHeight e (geomLayerBounds snapshot))
      in layerWidth \<noteq> fst unrotatedBufferSize \<or> layerHeight \<noteq> snd unrotatedBufferSize)"

definition getBlendMode :: "('t, 'r) env \<Rightarrow> ('t, 'r) snapshot \<Rightarrow> 'r requested \<Rightarrow> blendMode" where
  "getBlendMode e snapshot requested =
     (if alpha snapshot \<noteq> 1 \<or> \<not> sn_isContentOpaque e snapshot
      then (if premultipliedAlpha requested then PREMULTIPLIED else COVERAGE)
      else BlendNONE)"

definition getRootSnapshot :: "('t, 'r) env \<Rightarrow> ('t, 'r) snapshot" where
  "getRootSnapshot e =
     (defaultSnapshot e)\<lparr>
        changes := {},
        isHiddenByPolicyFromParent := False,
        isHiddenByPolicyFromRelativeParent := False,
        parentTransform := t_identity (geom e),
        geomLayerTransform := t_identity (geom e),
        geomInverseLayerTransform := t_identity (geom e),
        geomLayerBounds := getMaxDisplayBounds e [],
        roundedCorner := defaultRoundedCorner e,
        stretchEffect := defaultStretchEffect e,
        layerStack := DEFAULT_LAYER_STACK e,
        toInternalDisplay := False,
        isSecure := False,
        color_a := 1,
        colorTransformIsIdentity := True,
        shadowRadius := 0,
        layerMetadata := [],
        relativeLayerMetadata := [],
        inputInfo := (inputInfo (defaultSnapshot e))\<lparr>touchOcclusionMode := BLOCK_UNTRUSTED e\<rparr>,
        dropInputMode := Drop_NONE,
        isTrustedOverlay := False\<rparr>"

section \<open>The builder's state\<close>

text \<open>
  \<^verbatim>\<open>mSnapshots\<close> is a vector of owning pointers and \<^verbatim>\<open>mIdToSnapshot\<close> maps a path to
  a raw pointer to the same objects, so the objects live in an explicit store: \<open>heap\<close>
  is indexed by address, \<open>mSnapshots\<close> lists addresses in array order, and
  \<open>mIdToSnapshot\<close> gives the address stored for a path.
\<close>

record ('t, 'r) builder =
  mRootSnapshot :: "('t, 'r) snapshot"
  heap :: "('t, 'r) snapshot list"
  mSnapshots :: "nat list"
  mIdToSnapshot :: "path \<Rightarrow> nat option"

text \<open>
  \<^verbatim>\<open>getSnapshot(path)\<close>, during the update of the object at address \<open>a\<close> whose current
  value is \<open>cur\<close>: a pointer to that object reads \<open>cur\<close>, any other pointer reads the
  store. \<open>None\<close> is \<^verbatim>\<open>nullptr\<close>.
\<close>

definition getSnapshot ::
  "('t, 'r) builder \<Rightarrow> nat \<Rightarrow> ('t, 'r) snapshot \<Rightarrow> path \<Rightarrow> ('t, 'r) snapshot option" where
  "getSnapshot b a cur p =
     (case mIdToSnapshot b p of
        None \<Rightarrow> None
      | Some a' \<Rightarrow> if a' = a then Some cur
                   else if a' < length (heap b) then Some (heap b ! a') else None)"

definition getSnapshotById ::
  "('t, 'r) env \<Rightarrow> ('t, 'r) builder \<Rightarrow> nat \<Rightarrow> ('t, 'r) snapshot \<Rightarrow> nat \<Rightarrow>
     ('t, 'r) snapshot option" where
  "getSnapshotById e b a cur layerId =
     (if layerId = UNASSIGNED_LAYER_ID e then None
      else getSnapshot b a cur (defaultPath e layerId))"

section \<open>The per-node computations\<close>

text \<open>
  The two candidates of \<^verbatim>\<open>updateRoundedCorner\<close>: the parent's state taken into the
  layer's local space (lines 655 to 662) and the layer's own settings (lines 664 to 666).
\<close>

definition parentRoundedCorner ::
  "('t, 'r) env \<Rightarrow> ('t, 'r) snapshot \<Rightarrow> ('t, 'r) snapshot \<Rightarrow> roundedCornerState" where
  "parentRoundedCorner e snapshot parentSnapshot =
     (let g = geom e
      in if hasRoundedCorners e (roundedCorner parentSnapshot)
         then let t = t_inverse g (localTransform snapshot);
                  prc = roundedCorner parentSnapshot
              in prc\<lparr>cropRect := t_frect g t (cropRect prc),
                     radius_x := radius_x prc * t_scaleX g t,
                     radius_y := radius_y prc * t_scaleY g t\<rparr>
         else defaultRoundedCorner e)"

definition layerSettings ::
  "('t, 'r) env \<Rightarrow> ('t, 'r) snapshot \<Rightarrow> 'r requested \<Rightarrow> roundedCornerState" where
  "layerSettings e snapshot requested =
     \<lparr>cropRect = rect_toFloatRect e (croppedBufferSize snapshot),
      radius_x = cornerRadius requested, radius_y = cornerRadius requested\<rparr>"

definition updateRoundedCorner ::
  "('t, 'r) env \<Rightarrow> ('t, 'r) snapshot \<Rightarrow> 'r requested \<Rightarrow> ('t, 'r) snapshot \<Rightarrow> ('t, 'r) snapshot" where
  "updateRoundedCorner e snapshot requested parentSnapshot =
     (let s0 = snapshot\<lparr>roundedCorner := defaultRoundedCorner e\<rparr>;
          prc = parentRoundedCorner e s0 parentSnapshot;
          layerCropRect = rect_toFloatRect e (croppedBufferSize s0);
          ls = layerSettings e s0 requested;
          layerSettingsValid = (hasRoundedCorners e ls \<and> \<not> frect_isEmpty e layerCropRect);
          parentRoundedCornerValid = hasRoundedCorners e prc
      in if layerSettingsValid \<and> parentRoundedCornerValid
         then (if fleft (cropRect prc) > fleft layerCropRect \<and>
                  ftop (cropRect prc) > ftop layerCropRect \<and>
                  fright (cropRect prc) < fright layerCropRect \<and>
                  fbottom (cropRect prc) < fbottom layerCropRect
               then s0\<lparr>roundedCorner := prc\<rparr>
               else s0\<lparr>roundedCorner := ls\<rparr>)
         else if layerSettingsValid then s0\<lparr>roundedCorner := ls\<rparr>
         else if parentRoundedCornerValid then s0\<lparr>roundedCorner := prc\<rparr>
         else s0)"

definition updateLayerBounds ::
  "('t, 'r) env \<Rightarrow> ('t, 'r) snapshot \<Rightarrow> 'r requested \<Rightarrow> ('t, 'r) snapshot \<Rightarrow> 32 word \<Rightarrow>
     ('t, 'r) snapshot" where
  "updateLayerBounds e snapshot requested parentSnapshot displayRotationFlags =
     (let g = geom e;
          s1 = snapshot\<lparr>croppedBufferSize := rq_getCroppedBufferSize e requested (bufferSize snapshot),
                        geomCrop := crop requested,
                        localTransform := rq_getTransform e requested displayRotationFlags\<rparr>;
          s2 = s1\<lparr>localTransformInverse := t_inverse g (localTransform s1)\<rparr>;
          s3 = s2\<lparr>geomLayerTransform :=
                     t_mul g (geomLayerTransform parentSnapshot) (localTransform s2)\<rparr>;
          s4 = s3\<lparr>invalidTransform := \<not> t_isValid g (geomLayerTransform s3)\<rparr>;
          s5 = (if invalidTransform s4 then s4\<lparr>geomLayerTransform := t_identity g\<rparr> else s4);
          s6 = s5\<lparr>geomInverseLayerTransform := t_inverse g (geomLayerTransform s5)\<rparr>;
          parentBounds =
            t_frect g (t_inverse g (localTransform s6)) (geomLayerBounds parentSnapshot);
          s7 = s6\<lparr>geomLayerBounds :=
                     (if r_externalTexture requested \<noteq> None
                      then rect_toFloatRect e (bufferSize s6) else parentBounds)\<rparr>;
          s8 = (if \<not> rect_isEmpty e (crop requested)
                then s7\<lparr>geomLayerBounds :=
                          frect_intersect e (geomLayerBounds s7)
                            (rect_toFloatRect e (crop requested))\<rparr>
                else s7);
          s9 = s8\<lparr>geomLayerBounds := frect_intersect e (geomLayerBounds s8) parentBounds\<rparr>;
          s10 = s9\<lparr>transformedBounds := t_frect g (geomLayerTransform s9) (geomLayerBounds s9),
                    parentTransform := geomLayerTransform parentSnapshot\<rparr>;
          bounds = rq_reduce e (croppedBufferSize s10) (transparentRegion requested);
          s11 = s10\<lparr>cursorFrame := t_rect g (geomLayerTransform s10) bounds\<rparr>
      in s11\<lparr>bufferNeedsFiltering :=
               (externalTexture s11 \<noteq> None \<and>
                getBufferNeedsFiltering e s11
                  (rq_getUnrotatedBufferSize e requested displayRotationFlags))\<rparr>)"

definition updateShadows ::
  "('t, 'r) env \<Rightarrow> ('t, 'r) snapshot \<Rightarrow> 'r requested \<Rightarrow> shadowSettings \<Rightarrow> ('t, 'r) snapshot" where
  "updateShadows e snapshot requested shadowPreset =
     (let s1 = snapshot\<lparr>shadowRadius := r_shadowRadius requested,
                        shadowSettings :=
                          (shadowSettings snapshot)\<lparr>sh_length := r_shadowRadius requested\<rparr>\<rparr>
      in if shadowRadius s1 > 0
         then let s2 = s1\<lparr>shadowSettings := shadowPreset\<rparr>
              in s2\<lparr>shadowSettings := (shadowSettings s2)\<lparr>
                      boundaries := geomLayerBounds s2,
                      casterIsTranslucent := (\<not> sn_isContentOpaque e s2 \<or> alpha s2 < 1),
                      ambientColor := map (\<lambda>c. c * alpha s2) (ambientColor (shadowSettings s2)),
                      spotColor := map (\<lambda>c. c * alpha s2) (spotColor (shadowSettings s2))\<rparr>\<rparr>
         else s1)"

subsection \<open>updateInput\<close>

text \<open>
  Modelled from the spec: \<^verbatim>\<open>TraversalPath::isClone\<close> is not part of the builder's
  file. The traversal key records which mirror roots were crossed, and an occurrence is
  a mirror/clone instance when it crossed one.
\<close>

definition isClone :: "path \<Rightarrow> bool" where
  "isClone p = (mirrorRootIds p \<noteq> [])"

text \<open>\<^verbatim>\<open>inputInfo.setInputConfig(flag, value)\<close> sets or clears one flag.\<close>

definition setInputConfig :: "inputConfig \<Rightarrow> bool \<Rightarrow> ('t, 'r) snapshot \<Rightarrow> ('t, 'r) snapshot" where
  "setInputConfig f v snapshot =
     snapshot\<lparr>inputInfo := (inputInfo snapshot)\<lparr>inputConfig :=
        (if v then insert f (inputConfig (inputInfo snapshot))
         else inputConfig (inputInfo snapshot) - {f})\<rparr>\<rparr>"

definition setTouchableRegion :: "'r \<Rightarrow> ('t, 'r) snapshot \<Rightarrow> ('t, 'r) snapshot" where
  "setTouchableRegion r snapshot =
     snapshot\<lparr>inputInfo := (inputInfo snapshot)\<lparr>touchableRegion := r\<rparr>\<rparr>"

text \<open>The effective drop-input mode: lines 782 to 790.\<close>

definition effectiveDropInputMode :: "dropInputMode \<Rightarrow> dropInputMode \<Rightarrow> dropInputMode" where
  "effectiveDropInputMode own parent =
     (if own = Drop_ALL \<or> parent = Drop_ALL then Drop_ALL
      else if own = Drop_OBSCURED \<or> parent = Drop_OBSCURED then Drop_OBSCURED
      else Drop_NONE)"

text \<open>The touch-crop step: lines 800 to 808.\<close>

definition applyTouchCrop ::
  "('t, 'r) env \<Rightarrow> ('t, 'r) builder \<Rightarrow> nat \<Rightarrow> 't displayInfo \<Rightarrow> 'r requested \<Rightarrow>
     ('t, 'r) snapshot \<Rightarrow> ('t, 'r) snapshot" where
  "applyTouchCrop e b a displayInfo requested snapshot =
     (let g = geom e;
          cropLayerSnapshot = getSnapshotById e b a snapshot (touchCropId requested)
      in if replaceTouchableRegionWithCrop (inputInfo snapshot)
         then let bounds = rect_of_frect g
                    (case cropLayerSnapshot of
                       Some c \<Rightarrow> transformedBounds c
                     | None \<Rightarrow> transformedBounds snapshot)
              in setTouchableRegion (r_ofRect g (t_rect g (di_transform displayInfo) bounds))
                   snapshot
         else case cropLayerSnapshot of
                Some c \<Rightarrow>
                  setTouchableRegion
                    (r_intersect g (touchableRegion (inputInfo snapshot))
                       (t_rect g (di_transform displayInfo)
                          (rect_of_frect g (transformedBounds c))))
                    snapshot
              | None \<Rightarrow> snapshot)"

text \<open>The clone step: lines 818 to 826.\<close>

definition applyCloneCrop ::
  "('t, 'r) env \<Rightarrow> ('t, 'r) builder \<Rightarrow> nat \<Rightarrow> 't displayInfo \<Rightarrow> path \<Rightarrow>
     ('t, 'r) snapshot \<Rightarrow> ('t, 'r) snapshot" where
  "applyCloneCrop e b a displayInfo p snapshot =
     (let g = geom e
      in if isClone p
         then let s1 = addConfig CLONE snapshot;
                  clonedRootSnapshot = getSnapshotById e b a s1 (last (mirrorRootIds p))
              in case clonedRootSnapshot of
                   Some c \<Rightarrow>
                     let r = t_rect g (di_transform displayInfo)
                               (rect_of_frect g (transformedBounds c))
                     in setTouchableRegion
                          (r_intersect g (touchableRegion (inputInfo s1)) r) s1
                 | None \<Rightarrow> s1
         else snapshot)"

text \<open>
  The part of \<^verbatim>\<open>updateInput\<close> from the input frame to the effective drop-input mode:
  lines 761 to 790.
\<close>

definition prepareInput ::
  "('t, 'r) env \<Rightarrow> ('t, 'r) snapshot \<Rightarrow> 'r requested \<Rightarrow> ('t, 'r) snapshot \<Rightarrow>
     't displayInfo \<Rightarrow> bool \<Rightarrow> ('t, 'r) snapshot" where
  "prepareInput e s0 requested parentSnapshot displayInfo noValidDisplay =
     (let s1 = s0\<lparr>inputInfo :=
                 fillInputFrameInfo e (inputInfo s0) (di_transform displayInfo) s0\<rparr>;
          s2 = (if noValidDisplay then addConfig NOT_TOUCHABLE s1 else s1);
          visible = (if rq_hasInputInfo e requested then sn_canReceiveInput e s2
                     else isVisible s2);
          s3 = setInputConfig NOT_VISIBLE (\<not> visible) s2;
          s4 = s3\<lparr>inputInfo := (inputInfo s3)\<lparr>
                  wi_alpha := color_a s3,
                  touchOcclusionMode := touchOcclusionMode (inputInfo parentSnapshot)\<rparr>\<rparr>
      in s4\<lparr>dropInputMode :=
              effectiveDropInputMode (r_dropInputMode requested)
                (dropInputMode parentSnapshot)\<rparr>)"

definition updateInput ::
  "('t, 'r) env \<Rightarrow> ('t, 'r) builder \<Rightarrow> nat \<Rightarrow> ('t, 'r) snapshot \<Rightarrow> 'r requested \<Rightarrow>
     ('t, 'r) snapshot \<Rightarrow> 't displayInfo \<Rightarrow> bool \<Rightarrow> path \<Rightarrow> ('t, 'r) snapshot" where
  "updateInput e b a snapshot requested parentSnapshot displayInfo noValidDisplay p =
     (let s0 = snapshot\<lparr>inputInfo := (inputInfo snapshot)\<lparr>displayId :=
                  word_of_nat (layerStack snapshot)\<rparr>\<rparr>
      in if \<not> rq_hasInputInfo e requested
         then s0\<lparr>inputInfo := (inputInfo s0)\<lparr>inputConfig := {NO_INPUT_CHANNEL}\<rparr>\<rparr>
         else
           let s5 = prepareInput e s0 requested parentSnapshot displayInfo noValidDisplay;
               s6 = handleDropInputMode e s5 parentSnapshot;
               s7 = (if \<not> di_isSecure displayInfo \<and> isSecure s6 then addConfig DROP_INPUT s6
                     else s6);
               s8 = applyTouchCrop e b a displayInfo requested s7;
               s9 = (if isTrustedOverlay s8 then addConfig TRUSTED_OVERLAY s8 else s8)
           in applyCloneCrop e b a displayInfo p s9)"

subsection \<open>updateSnapshot\<close>

definition getDisplayRotationFlags ::
  "('t, 'r) env \<Rightarrow> (nat \<times> 't displayInfo) list \<Rightarrow> nat \<Rightarrow> 32 word" where
  "getDisplayRotationFlags e ds ls =
     (let display = (case map_of ds ls of
                       Some d \<Rightarrow> d
                     | None \<Rightarrow> (defaultDisplayInfo e)\<lparr>isPrimary := False\<rparr>)
      in if isPrimary display then rotationFlags display else 0)"

text \<open>The block gated by \<^verbatim>\<open>AffectsChildren\<close>: lines 548 to 570.\<close>

definition updateInherited ::
  "('t, 'r) env \<Rightarrow> ('t, 'r) snapshot \<Rightarrow> 'r requested \<Rightarrow> ('t, 'r) snapshot \<Rightarrow> ('t, 'r) snapshot" where
  "updateInherited e snapshot requested parentSnapshot =
     (let s1 = snapshot\<lparr>color_a := color_a parentSnapshot * r_color_a requested\<rparr>;
          s2 = s1\<lparr>alpha := color_a s1,
                  isSecure := (isSecure parentSnapshot \<or> flags requested AND eLayerSecure e \<noteq> 0),
                  isTrustedOverlay := (isTrustedOverlay parentSnapshot \<or> r_isTrustedOverlay requested),
                  layerStack := (if parentId requested \<noteq> UNASSIGNED_LAYER_ID e
                                 then layerStack parentSnapshot else r_layerStack requested),
                  toInternalDisplay := (toInternalDisplay parentSnapshot \<or>
                                        flags requested AND eLayerSkipScreenshot e \<noteq> 0),
                  stretchEffect := (if se_hasEffect (r_stretchEffect requested)
                                    then r_stretchEffect requested
                                    else stretchEffect parentSnapshot)\<rparr>
      in if \<not> colorTransformIsIdentity parentSnapshot
         then s2\<lparr>colorTransform := colorTransform_mul e (colorTransform parentSnapshot)
                                      (r_colorTransform requested),
                 colorTransformIsIdentity := False\<rparr>
         else s2\<lparr>colorTransform := r_colorTransform requested,
                 colorTransformIsIdentity := (\<not> hasColorTransform requested)\<rparr>)"

text \<open>
  The block gated by the buffer changes: lines 579 to 602. \<^verbatim>\<open>isHdrY410\<close> reads
  \<^verbatim>\<open>requested.bufferData->getPixelFormat()\<close> without testing the pointer; \<open>None\<close> is
  that read through a null pointer.
\<close>

definition updateBufferState ::
  "('t, 'r) env \<Rightarrow> ('t, 'r) snapshot \<Rightarrow> 'r requested \<Rightarrow> 32 word \<Rightarrow> ('t, 'r) snapshot option" where
  "updateBufferState e snapshot requested displayRotationFlags =
     (let s1 = snapshot\<lparr>
            acquireFence := (case bufferData requested of
                               Some bd \<Rightarrow> bd_acquireFence bd | None \<Rightarrow> None),
            buffer := (case r_externalTexture requested of
                         Some tex \<Rightarrow> tex_buffer tex | None \<Rightarrow> None),
            bufferSize := rq_getBufferSize e requested displayRotationFlags\<rparr>;
          s2 = s1\<lparr>geomBufferSize := bufferSize s1,
                  croppedBufferSize := rq_getCroppedBufferSize e requested (bufferSize s1),
                  dataspace := r_dataspace requested,
                  externalTexture := r_externalTexture requested,
                  frameNumber := (case bufferData requested of
                                    Some bd \<Rightarrow> bd_frameNumber bd | None \<Rightarrow> 0),
                  geomBufferTransform := bufferTransform requested,
                  geomBufferUsesDisplayInverseTransform := transformToDisplayInverse requested,
                  geomContentCrop := rq_getBufferCrop e requested\<rparr>;
          s3 = s2\<lparr>geomUsesSourceCrop := sn_hasBufferOrSidebandStream e s2\<rparr>;
          s4 = s3\<lparr>hasProtectedContent :=
                    (case r_externalTexture requested of
                       Some tex \<Rightarrow> tex_usage tex AND GRALLOC_USAGE_PROTECTED e \<noteq> 0
                     | None \<Rightarrow> False)\<rparr>
      in if r_dataspace requested = BT2020_ITU_PQ e \<and> api requested = NATIVE_WINDOW_API_MEDIA e
         then (case bufferData requested of
                 None \<Rightarrow> None
               | Some bd \<Rightarrow>
                   Some (s4\<lparr>isHdrY410 := (bd_pixelFormat bd = HAL_PIXEL_FORMAT_RGBA_1010102 e),
                            sidebandStream := r_sidebandStream requested,
                            surfaceDamage := surfaceDamageRegion requested,
                            transparentRegionHint := transparentRegion requested\<rparr>))
         else Some (s4\<lparr>isHdrY410 := False,
                        sidebandStream := r_sidebandStream requested,
                        surfaceDamage := surfaceDamageRegion requested,
                        transparentRegionHint := transparentRegion requested\<rparr>))"

text \<open>The block gated by \<^verbatim>\<open>Content\<close>: lines 604 to 610.\<close>

definition updateContent ::
  "('t, 'r) env \<Rightarrow> ('t, 'r) snapshot \<Rightarrow> 'r requested \<Rightarrow> ('t, 'r) snapshot" where
  "updateContent e snapshot requested =
     snapshot\<lparr>color_rgb := rq_getColorRgb e requested,
              isColorspaceAgnostic := colorSpaceAgnostic requested,
              backgroundBlurRadius := sint (r_backgroundBlurRadius requested),
              blurRegions := r_blurRegions requested,
              hdrMetadata := r_hdrMetadata requested\<rparr>"

text \<open>The computed properties at the end: lines 631 to 642.\<close>

definition updateComputed ::
  "('t, 'r) env \<Rightarrow> ('t, 'r) snapshot \<Rightarrow> ('t, 'r) args \<Rightarrow> 'r requested \<Rightarrow> ('t, 'r) snapshot \<Rightarrow>
     ('t, 'r) snapshot" where
  "updateComputed e snapshot args requested parentSnapshot =
     (let s1 = updateShadows e snapshot requested (globalShadowSettings args);
          s2 = (if includeMetadata args
                then s1\<lparr>layerMetadata :=
                          metadata_merge e (layerMetadata parentSnapshot) (metadata requested)\<rparr>
                else s1);
          s3 = s2\<lparr>forceClientComposition :=
                    (isHdrY410 s2 \<or> sh_length (shadowSettings s2) > 0 \<or>
                     length (r_blurRegions requested) > 0 \<or> se_hasEffect (stretchEffect s2))\<rparr>;
          s4 = s3\<lparr>isVisible := sn_getIsVisible e s3\<rparr>;
          s5 = s4\<lparr>isOpaque := (sn_isContentOpaque e s4 \<and>
                                \<not> hasRoundedCorners e (roundedCorner s4) \<and> color_a s4 = 1)\<rparr>
      in s5\<lparr>blendMode := getBlendMode e s5 requested\<rparr>)"

definition propagatingChanges :: "change set" where
  "propagatingChanges = {Hierarchy, Geometry, Visibility, Metadata, AffectsChildren}"

text \<open>
  \<open>b\<close> and \<open>a\<close> are the builder and the address of the object \<open>snapshot\<close> is the
  current value of; \<open>parentSnapshot\<close> is the value of another object. The result is the
  new value of the object, or \<open>None\<close> for the null read of \<open>updateBufferState\<close>.

  \<open>updateResolvedFields\<close> is \<^verbatim>\<open>updateSnapshot\<close> after the early return for a hidden
  layer: lines 541 to 642. Each block under a condition is one \<open>gated\<close> function, with
  \<open>force\<close> the local \<^verbatim>\<open>forceUpdate\<close>.
\<close>

definition gatedInherited ::
  "('t, 'r) env \<Rightarrow> bool \<Rightarrow> ('t, 'r) snapshot \<Rightarrow> 'r requested \<Rightarrow> ('t, 'r) snapshot \<Rightarrow>
     ('t, 'r) snapshot" where
  "gatedInherited e force s requested parentSnapshot =
     (if force \<or> changes s \<inter> {AffectsChildren} \<noteq> {}
      then updateInherited e s requested parentSnapshot else s)"

definition gatedComposition ::
  "('t, 'r) env \<Rightarrow> bool \<Rightarrow> ('t, 'r) snapshot \<Rightarrow> 'r requested \<Rightarrow> ('t, 'r) snapshot" where
  "gatedComposition e force s requested =
     (if force \<or> r_changes requested \<noteq> {}
      then s\<lparr>compositionType := rq_getCompositionType e requested,
             dimmingEnabled := r_dimmingEnabled requested,
             layerOpaqueFlagSet := (flags requested AND eLayerOpaque e = eLayerOpaque e)\<rparr>
      else s)"

definition gatedBuffer ::
  "('t, 'r) env \<Rightarrow> bool \<Rightarrow> ('t, 'r) snapshot \<Rightarrow> 'r requested \<Rightarrow> 32 word \<Rightarrow>
     ('t, 'r) snapshot option" where
  "gatedBuffer e force s requested displayRotationFlags =
     (if force \<or> what requested AND BUFFER_CHANGES e \<noteq> 0
      then updateBufferState e s requested displayRotationFlags else Some s)"

definition gatedContent ::
  "('t, 'r) env \<Rightarrow> bool \<Rightarrow> ('t, 'r) snapshot \<Rightarrow> 'r requested \<Rightarrow> ('t, 'r) snapshot" where
  "gatedContent e force s requested =
     (if force \<or> changes s \<inter> {Content} \<noteq> {} then updateContent e s requested else s)"

definition gatedGeometry ::
  "('t, 'r) env \<Rightarrow> bool \<Rightarrow> ('t, 'r) snapshot \<Rightarrow> 'r requested \<Rightarrow> ('t, 'r) snapshot \<Rightarrow> 32 word \<Rightarrow>
     ('t, 'r) snapshot" where
  "gatedGeometry e force s requested parentSnapshot displayRotationFlags =
     (if force \<or> changes s \<inter> {Hierarchy, Geometry} \<noteq> {}
      then updateRoundedCorner e
             (updateLayerBounds e s requested parentSnapshot displayRotationFlags)
             requested parentSnapshot
      else s)"

definition gatedInput ::
  "('t, 'r) env \<Rightarrow> bool \<Rightarrow> ('t, 'r) builder \<Rightarrow> nat \<Rightarrow> ('t, 'r) snapshot \<Rightarrow> ('t, 'r) args \<Rightarrow>
     'r requested \<Rightarrow> ('t, 'r) snapshot \<Rightarrow> path \<Rightarrow> ('t, 'r) snapshot" where
  "gatedInput e force b a s args requested parentSnapshot p =
     (if force \<or> changes s \<inter> {Hierarchy, Geometry, Input} \<noteq> {}
      then let displayInfo = map_of (displays args) (layerStack s);
               noValidDisplay = (displayInfo = None)
           in updateInput e b a s requested parentSnapshot
                (case displayInfo of
                   Some d \<Rightarrow> d
                 | None \<Rightarrow> (defaultDisplayInfo e)\<lparr>di_isSecure := False\<rparr>)
                noValidDisplay p
      else s)"

definition updateResolvedFields ::
  "('t, 'r) env \<Rightarrow> ('t, 'r) builder \<Rightarrow> nat \<Rightarrow> ('t, 'r) snapshot \<Rightarrow> ('t, 'r) args \<Rightarrow>
     'r requested \<Rightarrow> ('t, 'r) snapshot \<Rightarrow> path \<Rightarrow> ('t, 'r) snapshot option" where
  "updateResolvedFields e b a s1 args requested parentSnapshot p =
     (let displayRotationFlags = getDisplayRotationFlags e (displays args) (layerStack s1);
          force = (forceUpdate args \<or> changes s1 \<inter> {Visibility, Created} \<noteq> {});
          s2 = gatedInherited e force s1 requested parentSnapshot;
          s3 = gatedComposition e force s2 requested
      in case gatedBuffer e force s3 requested displayRotationFlags of
           None \<Rightarrow> None
         | Some s4 \<Rightarrow>
             let s5 = gatedContent e force s4 requested;
                 s6 = gatedGeometry e force s5 requested parentSnapshot displayRotationFlags;
                 s7 = gatedInput e force b a s6 args requested parentSnapshot p
             in Some (updateComputed e s7 args requested parentSnapshot))"

definition updateSnapshot ::
  "('t, 'r) env \<Rightarrow> ('t, 'r) builder \<Rightarrow> nat \<Rightarrow> ('t, 'r) snapshot \<Rightarrow> ('t, 'r) args \<Rightarrow>
     'r requested \<Rightarrow> ('t, 'r) snapshot \<Rightarrow> path \<Rightarrow> ('t, 'r) snapshot option" where
  "updateSnapshot e b a snapshot args requested parentSnapshot p =
     (let parentChanges = changes parentSnapshot \<inter> propagatingChanges;
          s1 = snapshot\<lparr>changes := parentChanges \<union> r_changes requested,
                        isHiddenByPolicyFromParent :=
                          (isHiddenByPolicyFromParent parentSnapshot \<or>
                           rq_isHiddenByPolicy e requested),
                        contentDirty := (what requested AND CONTENT_DIRTY e \<noteq> 0)\<rparr>
      in if isHiddenByPolicyFromParent s1 then Some (s1\<lparr>isVisible := False\<rparr>)
         else updateResolvedFields e b a s1 args requested parentSnapshot p)"

section \<open>The snapshot store and the walk\<close>

text \<open>Reading and writing the object at an address; an address outside the store is \<open>None\<close>.\<close>

definition derefSnapshot :: "('t, 'r) builder \<Rightarrow> nat \<Rightarrow> ('t, 'r) snapshot option" where
  "derefSnapshot b a = (if a < length (heap b) then Some (heap b ! a) else None)"

definition storeSnapshot :: "nat \<Rightarrow> ('t, 'r) snapshot \<Rightarrow> ('t, 'r) builder \<Rightarrow> ('t, 'r) builder" where
  "storeSnapshot a sn b = b\<lparr>heap := (heap b)[a := sn]\<rparr>"

definition getOrCreateSnapshot ::
  "('t, 'r) env \<Rightarrow> ('t, 'r) builder \<Rightarrow> path \<Rightarrow> 'r requested \<Rightarrow> ('t, 'r) builder \<times> nat" where
  "getOrCreateSnapshot e b p layer =
     (case mIdToSnapshot b p of
        Some a \<Rightarrow> (b, a)
      | None \<Rightarrow>
          let a = length (heap b);
              ms = mSnapshots b @ [a];
              sn = (newSnapshot e layer p)\<lparr>globalZ := length ms - 1\<rparr>
          in (b\<lparr>heap := heap b @ [sn], mSnapshots := ms,
                 mIdToSnapshot := (mIdToSnapshot b)(p := Some a)\<rparr>, a))"

definition updateRelativeState ::
  "('t, 'r) env \<Rightarrow> ('t, 'r) snapshot \<Rightarrow> ('t, 'r) snapshot \<Rightarrow> bool \<Rightarrow> ('t, 'r) args \<Rightarrow>
     ('t, 'r) snapshot" where
  "updateRelativeState e snapshot parentSnapshot parentIsRelative args =
     (let s1 =
        (if parentIsRelative
         then let s = snapshot\<lparr>isHiddenByPolicyFromRelativeParent :=
                         isHiddenByPolicyFromParent parentSnapshot\<rparr>
              in if includeMetadata args
                 then s\<lparr>relativeLayerMetadata := layerMetadata parentSnapshot\<rparr> else s
         else let s = snapshot\<lparr>isHiddenByPolicyFromRelativeParent :=
                         isHiddenByPolicyFromRelativeParent parentSnapshot\<rparr>
              in if includeMetadata args
                 then s\<lparr>relativeLayerMetadata := relativeLayerMetadata parentSnapshot\<rparr> else s)
      in s1\<lparr>isVisible := sn_getIsVisible e s1\<rparr>)"

definition resetRelativeState :: "('t, 'r) snapshot \<Rightarrow> ('t, 'r) snapshot" where
  "resetRelativeState snapshot =
     snapshot\<lparr>isHiddenByPolicyFromRelativeParent := False, relativeLayerMetadata := []\<rparr>"

text \<open>
  The \<^verbatim>\<open>parentSnapshot\<close> reference of the walk: the root snapshot or the object at an
  address, read when the child is updated.
\<close>

datatype parentRef = RootRef | Addr nat

definition derefParent :: "('t, 'r) builder \<Rightarrow> parentRef \<Rightarrow> ('t, 'r) snapshot option" where
  "derefParent b r = (case r of RootRef \<Rightarrow> Some (mRootSnapshot b) | Addr a \<Rightarrow> derefSnapshot b a)"

text \<open>The part of \<^verbatim>\<open>updateSnapshotsInHierarchy\<close> before the loop over the children.\<close>

definition updateNode ::
  "('t, 'r) env \<Rightarrow> ('t, 'r) args \<Rightarrow> 'r requested \<Rightarrow> path \<Rightarrow> parentRef \<Rightarrow> ('t, 'r) builder \<Rightarrow>
     (('t, 'r) builder \<times> nat) option" where
  "updateNode e args layer traversalPath pref b =
     (let (b1, a) = getOrCreateSnapshot e b traversalPath layer
      in case (derefSnapshot b1 a, derefParent b1 pref) of
           (Some snapshot, Some parentSnapshot) \<Rightarrow>
             (case (if path_isRelative e traversalPath
                    then Some (updateRelativeState e snapshot parentSnapshot
                                 (p_variant traversalPath = Relative) args)
                    else updateSnapshot e b1 a
                           (if path_isAttached e traversalPath
                            then resetRelativeState snapshot else snapshot)
                           args layer parentSnapshot traversalPath) of
                None \<Rightarrow> None
              | Some sn \<Rightarrow> Some (storeSnapshot a sn b1, a))
         | _ \<Rightarrow> None)"

fun updateSnapshotsInHierarchy ::
  "('t, 'r) env \<Rightarrow> ('t, 'r) args \<Rightarrow> 'r hierarchy \<Rightarrow> path \<Rightarrow> parentRef \<Rightarrow> ('t, 'r) builder \<Rightarrow>
     ('t, 'r) builder option"
and updateChildren ::
  "('t, 'r) env \<Rightarrow> ('t, 'r) args \<Rightarrow> ('r hierarchy \<times> variant) list \<Rightarrow> path \<Rightarrow> parentRef \<Rightarrow>
     ('t, 'r) builder \<Rightarrow> ('t, 'r) builder option" where
  "updateSnapshotsInHierarchy e args (LayerHierarchy layer children) traversalPath pref b =
     (case updateNode e args layer traversalPath pref b of
        None \<Rightarrow> None
      | Some (b1, a) \<Rightarrow>
          (case derefSnapshot b1 a of
             None \<Rightarrow> None
           | Some snapshot \<Rightarrow>
               if sn_isHiddenByPolicy e snapshot \<and> changes snapshot \<inter> {Visibility, Hierarchy} = {}
               then Some b1
               else updateChildren e args children traversalPath (Addr a) b1))"
| "updateChildren e args [] traversalPath pref b = Some b"
| "updateChildren e args (c # cs) traversalPath pref b =
     (case updateSnapshotsInHierarchy e args (fst c)
             (addChildToPath e traversalPath (r_id (getLayer (fst c))) (snd c)) pref b of
        None \<Rightarrow> None
      | Some b1 \<Rightarrow> updateChildren e args cs traversalPath pref b1)"

section \<open>sortSnapshotsByZ\<close>

text \<open>
  The visitor handed to \<^verbatim>\<open>traverseInZOrder\<close>. It works on the builder and the counter
  \<^verbatim>\<open>globalZ\<close> and answers whether the traversal goes on below the occurrence.
  \<^verbatim>\<open>mSnapshots[newZ]\<close> and the two iterators of \<^verbatim>\<open>iter_swap\<close> are unchecked: an
  index outside the vector is \<open>None\<close>.
\<close>

text \<open>\<^verbatim>\<open>std::iter_swap\<close> on two positions of \<^verbatim>\<open>mSnapshots\<close>.\<close>

definition swapSlots :: "nat \<Rightarrow> nat \<Rightarrow> ('t, 'r) builder \<Rightarrow> ('t, 'r) builder" where
  "swapSlots i j b = b\<lparr>mSnapshots := (mSnapshots b)[i := mSnapshots b ! j, j := mSnapshots b ! i]\<rparr>"

definition sortVisit ::
  "('t, 'r) env \<Rightarrow> path \<Rightarrow> ('t, 'r) builder \<times> nat \<Rightarrow> (bool \<times> ('t, 'r) builder \<times> nat) option" where
  "sortVisit e traversalPath st =
     (let b = fst st; z = snd st
      in case mIdToSnapshot b traversalPath of
           None \<Rightarrow> Some (False, b, z)
         | Some a \<Rightarrow>
             (case derefSnapshot b a of
                None \<Rightarrow> None
              | Some snapshot \<Rightarrow>
                  if sn_isHiddenByPolicy e snapshot \<and> Visibility \<notin> changes snapshot
                  then Some (False, b, z)
                  else if isVisible snapshot
                  then let oldZ = globalZ snapshot;
                           newZ = z;
                           b1 = storeSnapshot a (snapshot\<lparr>globalZ := newZ\<rparr>) b
                       in if oldZ = newZ then Some (True, b1, z + 1)
                          else if newZ < length (mSnapshots b1) \<and> oldZ < length (mSnapshots b1)
                          then (case derefSnapshot b1 (mSnapshots b1 ! newZ) of
                                  None \<Rightarrow> None
                                | Some other \<Rightarrow>
                                    let b2 = storeSnapshot (mSnapshots b1 ! newZ)
                                               (other\<lparr>globalZ := oldZ\<rparr>) b1
                                    in Some (True, swapSlots oldZ newZ b2, z + 1))
                          else None
                  else Some (True, b, z)))"

fun traverseInZOrder ::
  "('t, 'r) env \<Rightarrow> ztrav \<Rightarrow> ('t, 'r) builder \<times> nat \<Rightarrow> (('t, 'r) builder \<times> nat) option"
and traverseAll ::
  "('t, 'r) env \<Rightarrow> ztrav list \<Rightarrow> ('t, 'r) builder \<times> nat \<Rightarrow> (('t, 'r) builder \<times> nat) option" where
  "traverseInZOrder e (Visit p ks) st =
     (case sortVisit e p st of
        None \<Rightarrow> None
      | Some (goOn, st1) \<Rightarrow> if goOn then traverseAll e ks st1 else Some st1)"
| "traverseAll e [] st = Some st"
| "traverseAll e (t # ts) st =
     (case traverseInZOrder e t st of
        None \<Rightarrow> None
      | Some st1 \<Rightarrow> traverseAll e ts st1)"

text \<open>The loop after the traversal: lines 485 to 489, for the indices from \<open>z\<close> on.\<close>

definition markInvisible :: "nat \<Rightarrow> ('t, 'r) builder \<Rightarrow> ('t, 'r) builder option" where
  "markInvisible i b =
     (case derefSnapshot b (mSnapshots b ! i) of
        None \<Rightarrow> None
      | Some sn \<Rightarrow> Some (storeSnapshot (mSnapshots b ! i) (sn\<lparr>globalZ := i, isVisible := False\<rparr>) b))"

fun sortTail :: "nat list \<Rightarrow> ('t, 'r) builder \<Rightarrow> ('t, 'r) builder option" where
  "sortTail [] b = Some b"
| "sortTail (i # is) b =
     (case markInvisible i b of None \<Rightarrow> None | Some b1 \<Rightarrow> sortTail is b1)"

definition sortSnapshotsByZ ::
  "('t, 'r) env \<Rightarrow> ('t, 'r) args \<Rightarrow> ('t, 'r) builder \<Rightarrow> ('t, 'r) builder option" where
  "sortSnapshotsByZ e args b =
     (if \<not> forceUpdate args \<and> globalChanges args \<inter> {Hierarchy, Visibility} = {} then Some b
      else case traverseAll e (zOrder args) (b, 0) of
             None \<Rightarrow> None
           | Some (b1, z) \<Rightarrow> sortTail [z..<length (mSnapshots b1)] b1)"

section \<open>updateSnapshots, tryFastUpdate and update\<close>

text \<open>
  The eviction loop: lines 366 to 377, with \<open>i\<close> the position of the iterator. The
  entry at \<open>i\<close> is examined again after a removal.
\<close>

function evict :: "nat list \<Rightarrow> nat \<Rightarrow> ('t, 'r) builder \<Rightarrow> ('t, 'r) builder option" where
  "evict ids i b =
     (if i < length (mSnapshots b)
      then (case derefSnapshot b (mSnapshots b ! i) of
              None \<Rightarrow> None
            | Some sn \<Rightarrow>
                if p_id (path sn) \<notin> set ids then evict ids (i + 1) b
                else evict ids i
                       (b\<lparr>mIdToSnapshot := (mIdToSnapshot b)(path sn := None),
                          mSnapshots := butlast ((mSnapshots b)[i := last (mSnapshots b)])\<rparr>))
      else Some b)"
  by pat_completeness auto
termination
  by (relation "measure (\<lambda>(ids, i, b). length (mSnapshots b) - i)") auto

definition setRootChanges :: "change set \<Rightarrow> ('t, 'r) builder \<Rightarrow> ('t, 'r) builder" where
  "setRootChanges c b = b\<lparr>mRootSnapshot := (mRootSnapshot b)\<lparr>changes := c\<rparr>\<rparr>"

definition updateSnapshots ::
  "('t, 'r) env \<Rightarrow> ('t, 'r) args \<Rightarrow> ('t, 'r) builder \<Rightarrow> ('t, 'r) builder option" where
  "updateSnapshots e args b =
     (let b1 = (if forceUpdate args \<or> displayChanges args
                then b\<lparr>mRootSnapshot := (mRootSnapshot b)\<lparr>geomLayerBounds :=
                          getMaxDisplayBounds e (displays args)\<rparr>\<rparr>
                else b);
          b2 = (if displayChanges args then setRootChanges {AffectsChildren, Geometry} b1 else b1)
      in case updateChildren e args (root args) (ROOT e) RootRef b2 of
           None \<Rightarrow> None
         | Some b3 \<Rightarrow>
             (case sortSnapshotsByZ e args b3 of
                None \<Rightarrow> None
              | Some b4 \<Rightarrow>
                  let b5 = setRootChanges {} b4
                  in if destroyedLayers args = [] then Some b5
                     else evict (destroyedLayers args) 0 b5))"

text \<open>Clearing the flags of the object at an address: lines 296, 297 and 323, 324.\<close>

definition clearDirty :: "('t, 'r) snapshot \<Rightarrow> ('t, 'r) snapshot" where
  "clearDirty sn = sn\<lparr>changes := {}, contentDirty := False\<rparr>"

fun clearAll :: "nat list \<Rightarrow> ('t, 'r) builder \<Rightarrow> ('t, 'r) builder option" where
  "clearAll [] b = Some b"
| "clearAll (a # as) b =
     (case derefSnapshot b a of
        None \<Rightarrow> None
      | Some sn \<Rightarrow> clearAll as (storeSnapshot a (clearDirty sn) b))"

text \<open>
  \<^verbatim>\<open>layersWithChanges\<close>: \<^verbatim>\<open>emplace_or_replace\<close> keeps the last layer seen for an id.
\<close>

definition layersWithChanges :: "'r requested list \<Rightarrow> nat \<Rightarrow> 'r requested option" where
  "layersWithChanges ls i = find (\<lambda>l. r_id l = i) (rev (filter (\<lambda>l. Content \<in> r_changes l) ls))"

fun fastLoop ::
  "('t, 'r) env \<Rightarrow> ('t, 'r) args \<Rightarrow> nat list \<Rightarrow> ('t, 'r) builder \<Rightarrow> ('t, 'r) builder option" where
  "fastLoop e args [] b = Some b"
| "fastLoop e args (a # as) b =
     (case derefSnapshot b a of
        None \<Rightarrow> None
      | Some sn \<Rightarrow>
          let s1 = clearDirty sn
          in (case layersWithChanges (layers args) (p_id (path s1)) of
                None \<Rightarrow> fastLoop e args as (storeSnapshot a s1 b)
              | Some layer \<Rightarrow>
                  (case updateSnapshot e (storeSnapshot a s1 b) a s1 args layer
                          (mRootSnapshot b) (ROOT e) of
                     None \<Rightarrow> None
                   | Some s2 \<Rightarrow> fastLoop e args as (storeSnapshot a s2 b))))"

definition tryFastUpdate ::
  "('t, 'r) env \<Rightarrow> ('t, 'r) args \<Rightarrow> ('t, 'r) builder \<Rightarrow> (bool \<times> ('t, 'r) builder) option" where
  "tryFastUpdate e args b =
     (if forceUpdate args then Some (False, b)
      else if globalChanges args = {} then map_option (Pair True) (clearAll (mSnapshots b) b)
      else if globalChanges args \<noteq> {Content} then Some (False, b)
      else map_option (Pair True) (fastLoop e args (mSnapshots b) b))"

definition update ::
  "('t, 'r) env \<Rightarrow> ('t, 'r) args \<Rightarrow> ('t, 'r) builder \<Rightarrow> ('t, 'r) builder option" where
  "update e args b =
     (case tryFastUpdate e args b of
        None \<Rightarrow> None
      | Some (fast, b1) \<Rightarrow> if fast then Some b1 else updateSnapshots e args b1)"

section \<open>Reference definitions for the stated properties\<close>

text \<open>
  The region translation as it is described: a rectangle fits when each of its four exact
  coordinate sums is an \<^verbatim>\<open>int32_t\<close>, and the translated rectangle has those sums as
  coordinates.
\<close>

definition in_i32 :: "int \<Rightarrow> bool" where
  "in_i32 n = (- (2 ^ 31) \<le> n \<and> n < 2 ^ 31)"

definition rectFits :: "i32 \<Rightarrow> i32 \<Rightarrow> rect \<Rightarrow> bool" where
  "rectFits tx ty r =
     (in_i32 (sint (left r) + sint tx) \<and> in_i32 (sint (top r) + sint ty) \<and>
      in_i32 (sint (right r) + sint tx) \<and> in_i32 (sint (bottom r) + sint ty))"

definition rectShifted :: "i32 \<Rightarrow> i32 \<Rightarrow> rect \<Rightarrow> rect" where
  "rectShifted tx ty r =
     \<lparr>left = word_of_int (sint (left r) + sint tx), top = word_of_int (sint (top r) + sint ty),
      right = word_of_int (sint (right r) + sint tx),
      bottom = word_of_int (sint (bottom r) + sint ty)\<rparr>"

text \<open>
  The drop-input modes ordered by how much they restrict: \<^verbatim>\<open>ALL\<close> over
  \<^verbatim>\<open>OBSCURED\<close> over \<^verbatim>\<open>NONE\<close>.
\<close>

definition dropRank :: "dropInputMode \<Rightarrow> nat" where
  "dropRank m = (case m of Drop_NONE \<Rightarrow> 0 | Drop_OBSCURED \<Rightarrow> 1 | Drop_ALL \<Rightarrow> 2)"

definition mostRestrictive :: "dropInputMode \<Rightarrow> dropInputMode \<Rightarrow> dropInputMode" where
  "mostRestrictive own parent = (if dropRank own < dropRank parent then parent else own)"

text \<open>One rectangle strictly inside another: all four edges strictly inside.\<close>

definition strictlyInside :: "frect \<Rightarrow> frect \<Rightarrow> bool" where
  "strictlyInside inner outer =
     (fleft outer < fleft inner \<and> ftop outer < ftop inner \<and>
      fright inner < fright outer \<and> fbottom inner < fbottom outer)"



section \<open>A concrete library and concrete layers, for evaluation\<close>

text \<open>
  An instance of the parameters on which the functions above can be run: transforms that
  scale the two axes and translate, \<open>(sx, sy, tx, ty)\<close>, and regions that are lists of
  rectangles.
\<close>

type_synonym xform = "real \<times> real \<times> real \<times> real"

definition x_mul :: "xform \<Rightarrow> xform \<Rightarrow> xform" where
  "x_mul a b =
     (case a of (sxa, sya, txa, tya) \<Rightarrow> case b of (sxb, syb, txb, tyb) \<Rightarrow>
        (sxa * sxb, sya * syb, txa + sxa * txb, tya + sya * tyb))"

definition x_inverse :: "xform \<Rightarrow> xform" where
  "x_inverse a = (case a of (sx, sy, tx, ty) \<Rightarrow> (1 / sx, 1 / sy, - tx / sx, - ty / sy))"

definition x_frect :: "xform \<Rightarrow> frect \<Rightarrow> frect" where
  "x_frect a r =
     (case a of (sx, sy, tx, ty) \<Rightarrow>
        \<lparr>fleft = min (sx * fleft r) (sx * fright r) + tx,
         ftop = min (sy * ftop r) (sy * fbottom r) + ty,
         fright = max (sx * fleft r) (sx * fright r) + tx,
         fbottom = max (sy * ftop r) (sy * fbottom r) + ty\<rparr>)"

definition x_cast :: "real \<Rightarrow> i32" where
  "x_cast r = word_of_int (if 0 \<le> r then \<lfloor>r\<rfloor> else \<lceil>r\<rceil>)"

definition x_rect_of_frect :: "frect \<Rightarrow> rect" where
  "x_rect_of_frect f =
     \<lparr>left = x_cast (fleft f), top = x_cast (ftop f), right = x_cast (fright f),
      bottom = x_cast (fbottom f)\<rparr>"

definition x_toFloatRect :: "rect \<Rightarrow> frect" where
  "x_toFloatRect r =
     \<lparr>fleft = real_of_int (sint (left r)), ftop = real_of_int (sint (top r)),
      fright = real_of_int (sint (right r)), fbottom = real_of_int (sint (bottom r))\<rparr>"

definition x_rect :: "xform \<Rightarrow> rect \<Rightarrow> rect" where
  "x_rect a r = x_rect_of_frect (x_frect a (x_toFloatRect r))"

definition x_intersect :: "rect \<Rightarrow> rect \<Rightarrow> rect" where
  "x_intersect a b =
     \<lparr>left = max_i32 (left a) (left b), top = max_i32 (top a) (top b),
      right = (if sint (right a) < sint (right b) then right a else right b),
      bottom = (if sint (bottom a) < sint (bottom b) then bottom a else bottom b)\<rparr>"

definition x_fintersect :: "frect \<Rightarrow> frect \<Rightarrow> frect" where
  "x_fintersect a b =
     \<lparr>fleft = max (fleft a) (fleft b), ftop = max (ftop a) (ftop b),
      fright = min (fright a) (fright b), fbottom = min (fbottom a) (fbottom b)\<rparr>"

definition ex_geom :: "(xform, rect list) geom" where
  "ex_geom =
     \<lparr>t_identity = (1, 1, 0, 0),
      t_mul = x_mul,
      t_inverse = x_inverse,
      t_tx = (\<lambda>a. fst (snd (snd a))),
      t_ty = (\<lambda>a. snd (snd (snd a))),
      t_set = (\<lambda>a x y. (fst a, fst (snd a), x, y)),
      t_isIdentity = (\<lambda>a. a = (1, 1, 0, 0)),
      t_scaleX = fst,
      t_scaleY = (\<lambda>a. fst (snd a)),
      t_rect = x_rect,
      t_frect = x_frect,
      t_region = (\<lambda>a rs. map (x_rect a) rs),
      t_isValid = (\<lambda>a. fst a * fst (snd a) \<noteq> 0),
      r_empty = [],
      r_rects = (\<lambda>rs. rs),
      r_orSelf = (\<lambda>rs r. rs @ [r]),
      r_ofRect = (\<lambda>r. [r]),
      r_intersect = (\<lambda>rs r. map (x_intersect r) rs),
      rect_of_frect = x_rect_of_frect,
      size_to_real = (\<lambda>w. real_of_int (sint w))\<rparr>"

definition ex_rect :: "int \<Rightarrow> int \<Rightarrow> int \<Rightarrow> int \<Rightarrow> rect" where
  "ex_rect l t r b =
     \<lparr>left = word_of_int l, top = word_of_int t, right = word_of_int r, bottom = word_of_int b\<rparr>"

definition ex_frect :: "real \<Rightarrow> real \<Rightarrow> real \<Rightarrow> real \<Rightarrow> frect" where
  "ex_frect l t r b = \<lparr>fleft = l, ftop = t, fright = r, fbottom = b\<rparr>"

definition ex_path :: "nat \<Rightarrow> path" where
  "ex_path i = \<lparr>p_id = i, p_variant = Attached, mirrorRootIds = [], relativeRootIds = []\<rparr>"

definition ex_windowInfo :: "(xform, rect list) windowInfo" where
  "ex_windowInfo =
     \<lparr>touchableRegion = [], inputConfig = {}, surfaceInset = 0, frameLeft = 0, frameTop = 0,
      frameRight = 0, frameBottom = 0, wi_transform = (1, 1, 0, 0), displayId = 0,
      wi_alpha = 1, touchOcclusionMode = 0, replaceTouchableRegionWithCrop = False\<rparr>"

definition ex_shadow :: shadowSettings where
  "ex_shadow =
     \<lparr>boundaries = ex_frect 0 0 0 0, ambientColor = [0, 0, 0, 0], spotColor = [0, 0, 0, 0],
      lightPos = 0, lightRadius = 0, sh_length = 0, casterIsTranslucent = False\<rparr>"

definition ex_snapshot :: "(xform, rect list) snapshot" where
  "ex_snapshot =
     \<lparr>path = ex_path 0, globalZ = 0, changes = {}, contentDirty = False,
      isHiddenByPolicyFromParent = False, isHiddenByPolicyFromRelativeParent = False,
      isVisible = False, parentTransform = (1, 1, 0, 0), geomLayerTransform = (1, 1, 0, 0),
      geomInverseLayerTransform = (1, 1, 0, 0), localTransform = (1, 1, 0, 0),
      localTransformInverse = (1, 1, 0, 0), invalidTransform = False,
      geomLayerBounds = ex_frect 0 0 0 0, transformedBounds = ex_frect 0 0 0 0,
      croppedBufferSize = ex_rect 0 0 0 0, bufferSize = ex_rect 0 0 0 0,
      geomBufferSize = ex_rect 0 0 0 0, geomCrop = ex_rect 0 0 0 0,
      geomContentCrop = ex_rect 0 0 0 0, cursorFrame = ex_rect 0 0 0 0,
      bufferNeedsFiltering = False,
      roundedCorner = \<lparr>cropRect = ex_frect 0 0 0 0, radius_x = 0, radius_y = 0\<rparr>,
      stretchEffect = \<lparr>se_hasEffect = False, se_data = 0\<rparr>,
      layerStack = 0, toInternalDisplay = False, isSecure = False, isTrustedOverlay = False,
      color_a = 1, color_rgb = [0, 0, 0], alpha = 1, colorTransform = 0,
      colorTransformIsIdentity = True, shadowRadius = 0, shadowSettings = ex_shadow,
      layerMetadata = [], relativeLayerMetadata = [], inputInfo = ex_windowInfo,
      dropInputMode = Drop_NONE, compositionType = 0, dimmingEnabled = True,
      layerOpaqueFlagSet = False, acquireFence = None, buffer = None, dataspace = 0,
      externalTexture = None, frameNumber = 0, geomBufferTransform = 0,
      geomBufferUsesDisplayInverseTransform = False, geomUsesSourceCrop = False,
      hasProtectedContent = False, isHdrY410 = False, sidebandStream = None,
      surfaceDamage = [], transparentRegionHint = [], isColorspaceAgnostic = False,
      backgroundBlurRadius = 0, blurRegions = [], hdrMetadata = 0,
      forceClientComposition = False, isOpaque = False, blendMode = BlendNONE\<rparr>"

definition ex_requested :: "nat \<Rightarrow> rect list requested" where
  "ex_requested i =
     \<lparr>r_id = i, parentId = 0, r_changes = {}, what = 0, flags = 0, r_color_a = 1,
      r_isTrustedOverlay = False, r_layerStack = 0,
      r_stretchEffect = \<lparr>se_hasEffect = False, se_data = 0\<rparr>, r_colorTransform = 0,
      hasColorTransform = False, r_dimmingEnabled = True, premultipliedAlpha = True,
      bufferData = None, r_externalTexture = None, r_dataspace = 0, api = 0,
      bufferTransform = 0, transformToDisplayInverse = False, r_sidebandStream = None,
      surfaceDamageRegion = [], transparentRegion = [], colorSpaceAgnostic = False,
      r_backgroundBlurRadius = 0, r_blurRegions = [], r_hdrMetadata = 0,
      crop = ex_rect 0 0 0 0, cornerRadius = 0, r_shadowRadius = 0, metadata = [],
      r_dropInputMode = Drop_NONE, touchCropId = 0\<rparr>"

definition ex_display :: "xform displayInfo" where
  "ex_display =
     \<lparr>logicalWidth = 0, logicalHeight = 0, di_transform = (1, 1, 0, 0), isPrimary = False,
      di_isSecure = False, rotationFlags = 0\<rparr>"

text \<open>
  In \<open>ex_env\<close> a layer is hidden by policy when bit 0 of its flags is set, has content
  when it has a buffer or a sideband stream, and the unassigned layer id is 0.
\<close>

definition ex_env :: "(xform, rect list) env" where
  "ex_env =
     \<lparr>geom = ex_geom,
      rq_isHiddenByPolicy = (\<lambda>r. flags r AND 1 = 1),
      rq_getCompositionType = (\<lambda>r. 0),
      rq_getBufferSize = (\<lambda>r f. ex_rect 0 0 100 100),
      rq_getCroppedBufferSize = (\<lambda>r size. size),
      rq_getBufferCrop = (\<lambda>r. ex_rect 0 0 100 100),
      rq_getColorRgb = (\<lambda>r. [0, 0, 0]),
      rq_getTransform = (\<lambda>r f. (1, 1, 0, 0)),
      rq_getUnrotatedBufferSize = (\<lambda>r f. (100, 100)),
      rq_hasInputInfo = (\<lambda>r. False),
      rq_reduce = (\<lambda>r region. r),
      metadata_merge = (\<lambda>a b. a @ b),
      colorTransform_mul = (\<lambda>a b. a + b),
      sn_isHiddenByPolicy =
        (\<lambda>s. isHiddenByPolicyFromParent s \<or> isHiddenByPolicyFromRelativeParent s),
      sn_getIsVisible =
        (\<lambda>s. (buffer s \<noteq> None \<or> sidebandStream s \<noteq> None) \<and>
             (if isHiddenByPolicyFromParent s then False
              else if isHiddenByPolicyFromRelativeParent s then False else 0 < color_a s)),
      sn_isContentOpaque = (\<lambda>s. layerOpaqueFlagSet s),
      sn_hasBufferOrSidebandStream = (\<lambda>s. sidebandStream s \<noteq> None \<or> buffer s \<noteq> None),
      sn_canReceiveInput =
        (\<lambda>s. if isHiddenByPolicyFromParent s then False
             else if isHiddenByPolicyFromRelativeParent s then False else True),
      newSnapshot = (\<lambda>r p. ex_snapshot\<lparr>path := p\<rparr>),
      defaultSnapshot = ex_snapshot,
      hasRoundedCorners = (\<lambda>rc. 0 < radius_x rc \<and> 0 < radius_y rc),
      defaultRoundedCorner = \<lparr>cropRect = ex_frect 0 0 0 0, radius_x = 0, radius_y = 0\<rparr>,
      defaultStretchEffect = \<lparr>se_hasEffect = False, se_data = 0\<rparr>,
      rect_isValid = (\<lambda>r. sint (left r) \<le> sint (right r) \<and> sint (top r) \<le> sint (bottom r)),
      rect_isEmpty = (\<lambda>r. sint (right r) \<le> sint (left r) \<or> sint (bottom r) \<le> sint (top r)),
      rect_toFloatRect = x_toFloatRect,
      EMPTY_RECT = ex_rect 0 0 0 0,
      frect_isEmpty = (\<lambda>r. fright r \<le> fleft r \<or> fbottom r \<le> ftop r),
      frect_intersect = x_fintersect,
      frect_getWidth = (\<lambda>r. fright r - fleft r),
      frect_getHeight = (\<lambda>r. fbottom r - ftop r),
      path_isRelative = (\<lambda>p. relativeRootIds p \<noteq> []),
      path_isAttached = (\<lambda>p. p_variant p = Attached),
      addChildToPath = (\<lambda>p i v. p\<lparr>p_id := i, p_variant := v\<rparr>),
      ROOT = ex_path 0,
      defaultPath = ex_path,
      defaultDisplayInfo = ex_display,
      kEmptySize = (0, 0),
      UNASSIGNED_LAYER_ID = 0,
      DEFAULT_LAYER_STACK = 0,
      BLOCK_UNTRUSTED = 0,
      CONTENT_DIRTY = 1,
      BUFFER_CHANGES = 2,
      eLayerSecure = 128,
      eLayerSkipScreenshot = 64,
      eLayerOpaque = 2,
      GRALLOC_USAGE_PROTECTED = 16384,
      BT2020_ITU_PQ = 1,
      NATIVE_WINDOW_API_MEDIA = 3,
      HAL_PIXEL_FORMAT_RGBA_1010102 = 43\<rparr>"

definition w3_snapshot :: "(xform, rect list) snapshot" where
  "w3_snapshot =
     ex_snapshot\<lparr>croppedBufferSize := ex_rect 0 0 10 10, transformedBounds := ex_frect 0 0 5 10\<rparr>"

definition w3_requested :: "rect list requested" where
  "w3_requested = (ex_requested 1)\<lparr>r_dropInputMode := Drop_OBSCURED\<rparr>"

text \<open>
  A layer scaled by 2 and moved by \<open>(10, 0)\<close> in its parent, whose rounded rectangle is
  \<open>(30, 20, 190, 180)\<close> with radius 6: in the layer's space that is \<open>(10, 10, 90, 90)\<close>
  with radius 3. The layer asks for radius 4 on a crop of \<open>(0, 0, 100, 100)\<close>, and in
  the second case on a crop of \<open>(20, 20, 60, 60)\<close>.
\<close>

definition w6_snapshot :: "(xform, rect list) snapshot" where
  "w6_snapshot =
     ex_snapshot\<lparr>croppedBufferSize := ex_rect 0 0 100 100, localTransform := (2, 2, 10, 0)\<rparr>"

definition w6b_snapshot :: "(xform, rect list) snapshot" where
  "w6b_snapshot =
     ex_snapshot\<lparr>croppedBufferSize := ex_rect 20 20 60 60, localTransform := (2, 2, 10, 0)\<rparr>"

definition w6_requested :: "rect list requested" where
  "w6_requested = (ex_requested 1)\<lparr>cornerRadius := 4\<rparr>"

definition w6_parent :: "(xform, rect list) snapshot" where
  "w6_parent =
     ex_snapshot\<lparr>roundedCorner := \<lparr>cropRect = ex_frect 30 20 190 180, radius_x = 6, radius_y = 6\<rparr>\<rparr>"

text \<open>
  A layer without buffer at offset \<open>(5, 5)\<close> in a parent at offset \<open>(10, 0)\<close>: its
  absolute transform is the translation by \<open>(15, 5)\<close>.
\<close>

definition c2_snapshot :: "(xform, rect list) snapshot" where
  "c2_snapshot =
     ex_snapshot\<lparr>localTransform := (1, 1, 5, 5), geomLayerTransform := (1, 1, 15, 5),
                 parentTransform := (1, 1, 10, 0)\<rparr>"


definition ex_builder :: "(xform, rect list) builder" where
  "ex_builder =
     \<lparr>mRootSnapshot = ex_snapshot, heap = [], mSnapshots = [], mIdToSnapshot = (\<lambda>p. None)\<rparr>"

definition w9_snapshot :: "(xform, rect list) snapshot" where
  "w9_snapshot =
     ex_snapshot\<lparr>inputInfo := ex_windowInfo\<lparr>touchableRegion := [ex_rect 0 0 10 10]\<rparr>\<rparr>"

definition w9_requested :: "rect list requested" where
  "w9_requested = (ex_requested 1)\<lparr>touchCropId := 7\<rparr>"

definition w9_path :: path where
  "w9_path = (ex_path 1)\<lparr>p_variant := MirrorVariant, mirrorRootIds := [7]\<rparr>"

definition ex_args :: "(xform, rect list) args" where
  "ex_args =
     \<lparr>forceUpdate = False, displayChanges = False, includeMetadata = False, displays = [],
      globalShadowSettings = ex_shadow, root = [], zOrder = [], globalChanges = {},
      layers = [], destroyedLayers = []\<rparr>"

text \<open>
  A snapshot that was visible, a parent with a geometry and a content change, and a layer
  with a content and a buffer change and dirty content. Either the layer itself is
  hidden by policy (bit 0 of its flags) or its parent is.
\<close>

definition w7_snapshot :: "(xform, rect list) snapshot" where
  "w7_snapshot = ex_snapshot\<lparr>path := ex_path 5, isVisible := True, changes := {Input}\<rparr>"

definition w7_parent :: "(xform, rect list) snapshot" where
  "w7_parent = ex_snapshot\<lparr>changes := {Geometry, Content}\<rparr>"

definition w7_hidden_parent :: "(xform, rect list) snapshot" where
  "w7_hidden_parent = w7_parent\<lparr>isHiddenByPolicyFromParent := True\<rparr>"

definition w7_shown_requested :: "rect list requested" where
  "w7_shown_requested = (ex_requested 5)\<lparr>r_changes := {Content, Buffer}, what := 1\<rparr>"

definition w7_requested :: "rect list requested" where
  "w7_requested = w7_shown_requested\<lparr>flags := 1\<rparr>"



text \<open>
  A builder as the constructor leaves it, and an update that is not forced, carries no
  layer change and reports changed displays, with one display of 1080 by 1920.
\<close>

definition c10_builder :: "(xform, rect list) builder" where
  "c10_builder = ex_builder\<lparr>mRootSnapshot := getRootSnapshot ex_env\<rparr>"

definition c10_args :: "(xform, rect list) args" where
  "c10_args =
     ex_args\<lparr>displayChanges := True,
             displays := [(0, ex_display\<lparr>logicalWidth := 1080, logicalHeight := 1920\<rparr>)]\<rparr>"

section \<open>Overflow-safe region transform\<close>

lemma translateRect_spec:
  "translateRect tx ty r = (if rectFits tx ty r then Some (rectShifted tx ty r) else None)"
  by (auto simp: translateRect_def rectFits_def rectShifted_def add_overflow_def in_i32_def)

lemma translateLoop_foldl:
  "translateLoop g tx ty rs ret =
     foldl (r_orSelf g) ret (map (rectShifted tx ty) (filter (rectFits tx ty) rs))"
  by (induction rs arbitrary: ret) (simp_all add: translateRect_spec)

text \<open>
  What the loop does with overflow: of the rectangles of the region transformed without
  the translation, those with a coordinate sum outside the 32-bit range are left out, and
  every other one is added to the output, shifted by exactly \<open>tx\<close> and \<open>ty\<close>, the
  values the function computes from the translation. The function is total.
\<close>

lemma transformTouchableRegionSafely_drops_overflowing_rects:
  "transformTouchableRegionSafely g t r =
     foldl (r_orSelf g) (r_empty g)
       (map (rectShifted (static_cast_i32 (t_tx g t + 1 / 2)) (static_cast_i32 (t_ty g t + 1 / 2)))
          (filter (rectFits (static_cast_i32 (t_tx g t + 1 / 2))
                     (static_cast_i32 (t_ty g t + 1 / 2)))
             (r_rects g (t_region g (t_set g t 0 0) r))))"
  by (simp add: transformTouchableRegionSafely_def translateLoop_foldl Let_def)

section \<open>Evaluating the concrete library\<close>

lemma ex_env_sel:
  "geom ex_env = ex_geom"
  "rect_isValid ex_env =
     (\<lambda>r. sint (left r) \<le> sint (right r) \<and> sint (top r) \<le> sint (bottom r))"
  "rect_toFloatRect ex_env = x_toFloatRect"
  "hasRoundedCorners ex_env = (\<lambda>rc. 0 < radius_x rc \<and> 0 < radius_y rc)"
  "frect_isEmpty ex_env = (\<lambda>r. fright r \<le> fleft r \<or> fbottom r \<le> ftop r)"
  "defaultRoundedCorner ex_env = \<lparr>cropRect = ex_frect 0 0 0 0, radius_x = 0, radius_y = 0\<rparr>"
  "UNASSIGNED_LAYER_ID ex_env = 0"
  "defaultPath ex_env = ex_path"
  "rq_isHiddenByPolicy ex_env = (\<lambda>r. flags r AND 1 = 1)"
  "CONTENT_DIRTY ex_env = 1"
  by (simp_all add: ex_env_def)

lemma ex_geom_sel:
  "t_identity ex_geom = (1, 1, 0, 0)"
  "t_mul ex_geom = x_mul"
  "t_inverse ex_geom = x_inverse"
  "t_rect ex_geom = x_rect"
  "t_frect ex_geom = x_frect"
  "t_scaleX ex_geom = fst"
  "t_scaleY ex_geom = (\<lambda>a. fst (snd a))"
  "t_isValid ex_geom = (\<lambda>a. fst a * fst (snd a) \<noteq> 0)"
  "rect_of_frect ex_geom = x_rect_of_frect"
  "r_ofRect ex_geom = (\<lambda>r. [r])"
  "size_to_real ex_geom = (\<lambda>w. real_of_int (sint w))"
  by (simp_all add: ex_geom_def)

section \<open>The translation of the touchable region\<close>

lemma static_cast_i32_round_half_up:
  "- 1 / 2 \<le> x \<Longrightarrow> static_cast_i32 (x + 1 / 2) = word_of_int \<lfloor>x + 1 / 2\<rfloor>"
  by (simp add: static_cast_i32_def)

lemma static_cast_i32_negative_integer:
  "n < 0 \<Longrightarrow> static_cast_i32 (real_of_int n + 1 / 2) = word_of_int (n + 1)"
proof -
  assume n: "n < 0"
  have "\<lceil>real_of_int n + 1 / 2\<rceil> = n + 1"
    by (rule ceiling_unique) simp_all
  moreover have "\<not> 0 \<le> real_of_int n + 1 / 2"
    using n by simp
  ultimately show ?thesis by (simp add: static_cast_i32_def)
qed

text \<open>
  C4. The translation that is added is \<^verbatim>\<open>static_cast<int32_t>(t.tx() + 0.5)\<close>, and
  the cast truncates toward zero, so a negative translation is not rounded: for the
  translation by \<open>(-10, 0)\<close> the function adds \<open>-9\<close> to the left and right edges. The
  rectangle \<open>(0, 0, 10, 10)\<close> comes out as \<open>(-9, 0, 1, 10)\<close>, where the rounded
  translation gives \<open>(-10, 0, 0, 10)\<close>.
\<close>

theorem transformTouchableRegionSafely_truncates_negative_translation:
  "t_tx ex_geom (1, 1, - 10, 0) = - 10 \<and> t_ty ex_geom (1, 1, - 10, 0) = 0 \<and>
   transformTouchableRegionSafely ex_geom (1, 1, - 10, 0) [ex_rect 0 0 10 10] =
     [ex_rect (- 9) 0 1 10]"
proof -
  have tx: "static_cast_i32 (- 10 + 1 / 2) = - 9"
    using static_cast_i32_negative_integer [of "- 10"] by simp
  have ty: "static_cast_i32 (0 + 1 / 2) = 0"
    by (simp add: static_cast_i32_def)
  have r: "x_rect (1, 1, 0, 0) (ex_rect 0 0 10 10) = ex_rect 0 0 10 10"
    by (simp add: x_rect_def ex_rect_def x_rect_of_frect_def x_frect_def x_toFloatRect_def
        x_cast_def)
  have sel: "t_tx ex_geom = (\<lambda>a. fst (snd (snd a)))" "t_ty ex_geom = (\<lambda>a. snd (snd (snd a)))"
    "t_set ex_geom = (\<lambda>a x y. (fst a, fst (snd a), x, y))"
    "t_region ex_geom = (\<lambda>a rs. map (x_rect a) rs)" "r_rects ex_geom = (\<lambda>rs. rs)"
    "r_empty ex_geom = []" "r_orSelf ex_geom = (\<lambda>rs r. rs @ [r])"
    by (simp_all add: ex_geom_def)
  have t: "translateRect (- 9) 0 (ex_rect 0 0 10 10) = Some (ex_rect (- 9) 0 1 10)"
    by (simp add: translateRect_def add_overflow_def ex_rect_def)
  show ?thesis
    using tx ty by (simp add: transformTouchableRegionSafely_def Let_def sel r t)
qed

section \<open>Drop-input policy\<close>

lemma effectiveDropInputMode_mostRestrictive:
  "effectiveDropInputMode own parent = mostRestrictive own parent"
  by (cases own; cases parent)
    (simp_all add: effectiveDropInputMode_def mostRestrictive_def dropRank_def)

lemma inputConfig_addConfig:
  "inputConfig (inputInfo (addConfig f s)) = insert f (inputConfig (inputInfo s))"
  by (simp add: addConfig_def)

lemma addConfig_frame:
  "croppedBufferSize (addConfig f s) = croppedBufferSize s"
  "geomLayerTransform (addConfig f s) = geomLayerTransform s"
  "transformedBounds (addConfig f s) = transformedBounds s"
  "dropInputMode (addConfig f s) = dropInputMode s"
  by (simp_all add: addConfig_def)

lemma inputConfig_fillInputFrameInfo:
  "inputConfig (fillInputFrameInfo e info t s) = inputConfig info"
  by (simp add: fillInputFrameInfo_def Let_def)

lemma prepareInput_dropInputMode:
  "dropInputMode (prepareInput e s0 requested parentSnapshot displayInfo nvd) =
     effectiveDropInputMode (r_dropInputMode requested) (dropInputMode parentSnapshot)"
  by (simp add: prepareInput_def Let_def)

lemma prepareInput_no_channel:
  "NO_INPUT_CHANNEL \<in>
     inputConfig (inputInfo (prepareInput e s0 requested parentSnapshot displayInfo nvd))
   \<longleftrightarrow> NO_INPUT_CHANNEL \<in> inputConfig (inputInfo s0)"
  by (simp add: prepareInput_def Let_def setInputConfig_def inputConfig_addConfig
      inputConfig_fillInputFrameInfo)

lemma prepareInput_frame:
  "croppedBufferSize (prepareInput e s0 requested parentSnapshot displayInfo nvd) =
     croppedBufferSize s0"
  "transformedBounds (prepareInput e s0 requested parentSnapshot displayInfo nvd) =
     transformedBounds s0"
  "geomLayerTransform (prepareInput e s0 requested parentSnapshot displayInfo nvd) =
     geomLayerTransform s0"
  by (simp_all add: prepareInput_def Let_def setInputConfig_def addConfig_def)

lemma handleDropInputMode_marks:
  assumes "NO_INPUT_CHANNEL \<notin> inputConfig (inputInfo s)"
  shows "(dropInputMode s = Drop_ALL \<longrightarrow>
            inputConfig (inputInfo (handleDropInputMode e s parent)) =
              insert DROP_INPUT (inputConfig (inputInfo s))) \<and>
         (dropInputMode s = Drop_NONE \<longrightarrow>
            inputConfig (inputInfo (handleDropInputMode e s parent)) = inputConfig (inputInfo s)) \<and>
         (dropInputMode s = Drop_OBSCURED \<longrightarrow>
            (color_a parent \<noteq> 1 \<longrightarrow>
               DROP_INPUT \<in> inputConfig (inputInfo (handleDropInputMode e s parent))) \<and>
            (color_a parent = 1 \<longrightarrow>
               inputConfig (inputInfo (handleDropInputMode e s parent)) =
                 (if \<not> rect_isValid e (croppedBufferSize s)
                  then insert DROP_INPUT_IF_OBSCURED (inputConfig (inputInfo s))
                  else if t_rect (geom e) (geomLayerTransform s) (croppedBufferSize s)
                            \<noteq> rect_of_frect (geom e) (transformedBounds s)
                  then insert DROP_INPUT (inputConfig (inputInfo s))
                  else insert DROP_INPUT_IF_OBSCURED (inputConfig (inputInfo s)))))"
  using assms
  by (auto simp: handleDropInputMode_def Let_def inputConfig_addConfig addConfig_frame)

text \<open>
  C3. For a node with an input channel (the \<^verbatim>\<open>NO_INPUT_CHANNEL\<close> flag is off), let
  \<open>s\<close> be the snapshot when \<^verbatim>\<open>updateInput\<close> reaches \<^verbatim>\<open>handleDropInputMode\<close>. Its
  drop-input mode is the most restrictive of the requested mode and the parent's mode.
  If that mode is \<^verbatim>\<open>ALL\<close>, \<^verbatim>\<open>DROP_INPUT\<close> is added to the input flags and nothing
  else; if it is \<^verbatim>\<open>NONE\<close> the flags stay. If it is \<^verbatim>\<open>OBSCURED\<close>: when the parent's
  alpha is not 1 \<^verbatim>\<open>DROP_INPUT\<close> is set; when it is 1, the flags gain
  \<^verbatim>\<open>DROP_INPUT_IF_OBSCURED\<close> if the cropped buffer size is invalid, else
  \<^verbatim>\<open>DROP_INPUT\<close> if the cropped buffer size under the layer transform differs from the
  transformed bounds, else \<^verbatim>\<open>DROP_INPUT_IF_OBSCURED\<close>.
\<close>

theorem updateInput_drop_input_policy:
  assumes "NO_INPUT_CHANNEL \<notin> inputConfig (inputInfo s0)"
    and "s = prepareInput e s0 requested parent displayInfo noValidDisplay"
  shows "dropInputMode s = mostRestrictive (r_dropInputMode requested) (dropInputMode parent) \<and>
         (dropInputMode s = Drop_ALL \<longrightarrow>
            inputConfig (inputInfo (handleDropInputMode e s parent)) =
              insert DROP_INPUT (inputConfig (inputInfo s))) \<and>
         (dropInputMode s = Drop_NONE \<longrightarrow>
            inputConfig (inputInfo (handleDropInputMode e s parent)) = inputConfig (inputInfo s)) \<and>
         (dropInputMode s = Drop_OBSCURED \<longrightarrow>
            (color_a parent \<noteq> 1 \<longrightarrow>
               DROP_INPUT \<in> inputConfig (inputInfo (handleDropInputMode e s parent))) \<and>
            (color_a parent = 1 \<longrightarrow>
               inputConfig (inputInfo (handleDropInputMode e s parent)) =
                 (if \<not> rect_isValid e (croppedBufferSize s0)
                  then insert DROP_INPUT_IF_OBSCURED (inputConfig (inputInfo s))
                  else if t_rect (geom e) (geomLayerTransform s0) (croppedBufferSize s0)
                            \<noteq> rect_of_frect (geom e) (transformedBounds s0)
                  then insert DROP_INPUT (inputConfig (inputInfo s))
                  else insert DROP_INPUT_IF_OBSCURED (inputConfig (inputInfo s)))))"
proof -
  have nc: "NO_INPUT_CHANNEL \<notin> inputConfig (inputInfo s)"
    using assms by (simp add: prepareInput_no_channel)
  have mode: "dropInputMode s =
      mostRestrictive (r_dropInputMode requested) (dropInputMode parent)"
    using assms(2)
    by (simp add: prepareInput_dropInputMode effectiveDropInputMode_mostRestrictive)
  have frame: "croppedBufferSize s = croppedBufferSize s0"
    "geomLayerTransform s = geomLayerTransform s0" "transformedBounds s = transformedBounds s0"
    using assms(2) by (simp_all add: prepareInput_frame)
  from handleDropInputMode_marks [OF nc, of e parent] mode frame show ?thesis
    by simp
qed

lemma w3_sel:
  "inputConfig (inputInfo w3_snapshot) = {}"
  "croppedBufferSize w3_snapshot = ex_rect 0 0 10 10"
  "transformedBounds w3_snapshot = ex_frect 0 0 5 10"
  "geomLayerTransform w3_snapshot = (1, 1, 0, 0)"
  "color_a ex_snapshot = 1"
  "dropInputMode ex_snapshot = Drop_NONE"
  "r_dropInputMode w3_requested = Drop_OBSCURED"
  by (simp_all add: w3_snapshot_def w3_requested_def ex_requested_def ex_snapshot_def
      ex_windowInfo_def)

lemma w3_cropped:
  "x_rect (1, 1, 0, 0) (ex_rect 0 0 10 10) \<noteq> x_rect_of_frect (ex_frect 0 0 5 10)"
  by (simp add: x_rect_def ex_rect_def ex_frect_def x_rect_of_frect_def x_frect_def
      x_toFloatRect_def x_cast_def)

theorem updateInput_drop_input_policy_witness:
  "NO_INPUT_CHANNEL \<notin> inputConfig (inputInfo w3_snapshot) \<and>
   dropInputMode (prepareInput ex_env w3_snapshot w3_requested ex_snapshot ex_display False) =
     Drop_OBSCURED \<and>
   inputConfig (inputInfo (handleDropInputMode ex_env
       (prepareInput ex_env w3_snapshot w3_requested ex_snapshot ex_display False) ex_snapshot)) =
     insert DROP_INPUT (inputConfig (inputInfo
       (prepareInput ex_env w3_snapshot w3_requested ex_snapshot ex_display False)))"
proof -
  have h: "NO_INPUT_CHANNEL \<notin> inputConfig (inputInfo w3_snapshot)"
    by (simp add: w3_sel)
  have valid: "rect_isValid ex_env (ex_rect 0 0 10 10)"
    by (simp add: ex_env_sel ex_rect_def)
  from updateInput_drop_input_policy [where e = ex_env and requested = w3_requested
      and parent = ex_snapshot and displayInfo = ex_display and noValidDisplay = False,
      OF h refl]
    valid w3_cropped
  show ?thesis
    by (simp add: h w3_sel ex_env_sel ex_geom_sel mostRestrictive_def dropRank_def)
qed

section \<open>Rounded corners\<close>

lemma roundedCorner_candidates_frame:
  "parentRoundedCorner e (s\<lparr>roundedCorner := x\<rparr>) p = parentRoundedCorner e s p"
  "layerSettings e (s\<lparr>roundedCorner := x\<rparr>) r = layerSettings e s r"
  by (simp_all add: parentRoundedCorner_def layerSettings_def Let_def)

text \<open>
  C6. Let \<open>prc\<close> be the parent's rounded-corner state taken into the layer's local
  space: if the parent has rounded corners, its rectangle transformed by the inverse \<open>t\<close>
  of the layer's local transform and its radii scaled by the scale factors of \<open>t\<close>, and
  the default state if it has none. Let \<open>ls\<close> be the layer's own settings: the cropped
  buffer size as rectangle, the requested corner radius as both radii. The layer's
  settings are valid when they have rounded corners and the rectangle is not empty, the
  parent's when \<open>prc\<close> has rounded corners. When both are valid the snapshot gets \<open>prc\<close>
  if the parent's rectangle is strictly inside the layer's on all four edges, and \<open>ls\<close>
  if not. When only one is valid the snapshot gets that one. When none is valid the
  snapshot gets the default state. No other field of the snapshot changes.
\<close>

theorem updateRoundedCorner_choice:
  assumes "t = t_inverse (geom e) (localTransform snapshot)"
    and "prc = (if hasRoundedCorners e (roundedCorner parent)
                then \<lparr>cropRect = t_frect (geom e) t (cropRect (roundedCorner parent)),
                      radius_x = radius_x (roundedCorner parent) * t_scaleX (geom e) t,
                      radius_y = radius_y (roundedCorner parent) * t_scaleY (geom e) t\<rparr>
                else defaultRoundedCorner e)"
    and "ls = \<lparr>cropRect = rect_toFloatRect e (croppedBufferSize snapshot),
               radius_x = cornerRadius requested, radius_y = cornerRadius requested\<rparr>"
    and "lv = (hasRoundedCorners e ls \<and> \<not> frect_isEmpty e (cropRect ls))"
    and "pv = hasRoundedCorners e prc"
  shows "(lv \<and> pv \<and> strictlyInside (cropRect prc) (cropRect ls) \<longrightarrow>
            roundedCorner (updateRoundedCorner e snapshot requested parent) = prc) \<and>
         (lv \<and> pv \<and> \<not> strictlyInside (cropRect prc) (cropRect ls) \<longrightarrow>
            roundedCorner (updateRoundedCorner e snapshot requested parent) = ls) \<and>
         (lv \<and> \<not> pv \<longrightarrow>
            roundedCorner (updateRoundedCorner e snapshot requested parent) = ls) \<and>
         (\<not> lv \<and> pv \<longrightarrow>
            roundedCorner (updateRoundedCorner e snapshot requested parent) = prc) \<and>
         (\<not> lv \<and> \<not> pv \<longrightarrow>
            roundedCorner (updateRoundedCorner e snapshot requested parent) =
              defaultRoundedCorner e) \<and>
         updateRoundedCorner e snapshot requested parent =
           snapshot\<lparr>roundedCorner :=
             roundedCorner (updateRoundedCorner e snapshot requested parent)\<rparr>"
proof -
  have p: "prc = parentRoundedCorner e snapshot parent"
    using assms(1,2) by (simp add: parentRoundedCorner_def Let_def)
  have l: "ls = layerSettings e snapshot requested"
    using assms(3) by (simp add: layerSettings_def)
  show ?thesis
    using p l assms(4,5)
    by (auto simp: updateRoundedCorner_def Let_def roundedCorner_candidates_frame
        strictlyInside_def layerSettings_def)
qed

lemma ex_frect_sel:
  "fleft (ex_frect l t r b) = l" "ftop (ex_frect l t r b) = t"
  "fright (ex_frect l t r b) = r" "fbottom (ex_frect l t r b) = b"
  by (simp_all add: ex_frect_def)

lemma w6_sel:
  "croppedBufferSize w6_snapshot = ex_rect 0 0 100 100"
  "localTransform w6_snapshot = (2, 2, 10, 0)"
  "croppedBufferSize w6b_snapshot = ex_rect 20 20 60 60"
  "localTransform w6b_snapshot = (2, 2, 10, 0)"
  "cornerRadius w6_requested = 4"
  "roundedCorner w6_parent = \<lparr>cropRect = ex_frect 30 20 190 180, radius_x = 6, radius_y = 6\<rparr>"
  by (simp_all add: w6_snapshot_def w6b_snapshot_def w6_requested_def w6_parent_def
      ex_snapshot_def ex_requested_def)

lemma w6_reprojected:
  "x_frect (x_inverse (2, 2, 10, 0)) (ex_frect 30 20 190 180) = ex_frect 10 10 90 90"
  "fst (x_inverse (2, 2, 10, 0)) = 1 / 2"
  "fst (snd (x_inverse (2, 2, 10, 0))) = 1 / 2"
  by (simp_all add: x_inverse_def x_frect_def ex_frect_def)

lemma w6_rects:
  "x_toFloatRect (ex_rect 0 0 100 100) = ex_frect 0 0 100 100"
  "x_toFloatRect (ex_rect 20 20 60 60) = ex_frect 20 20 60 60"
  by (simp_all add: x_toFloatRect_def ex_rect_def ex_frect_def)

theorem updateRoundedCorner_choice_witness:
  "roundedCorner (updateRoundedCorner ex_env w6_snapshot w6_requested w6_parent) =
     \<lparr>cropRect = ex_frect 10 10 90 90, radius_x = 3, radius_y = 3\<rparr> \<and>
   roundedCorner (updateRoundedCorner ex_env w6b_snapshot w6_requested w6_parent) =
     \<lparr>cropRect = ex_frect 20 20 60 60, radius_x = 4, radius_y = 4\<rparr>"
  using updateRoundedCorner_choice [where e = ex_env and snapshot = w6_snapshot
      and parent = w6_parent and requested = w6_requested, OF refl refl refl refl refl]
    updateRoundedCorner_choice [where e = ex_env and snapshot = w6b_snapshot
      and parent = w6_parent and requested = w6_requested, OF refl refl refl refl refl]
  by (simp add: w6_sel w6_reprojected w6_rects ex_env_sel ex_geom_sel strictlyInside_def
      ex_frect_sel)

section \<open>The transform used for input\<close>

text \<open>
  C2, as the code has it. The layer-to-display transform of \<^verbatim>\<open>fillInputFrameInfo\<close> is
  the display's screen transform composed with the parent's absolute transform when the
  layer has a buffer or a sideband stream, and with the layer's own absolute transform
  (\<^verbatim>\<open>geomLayerTransform\<close>, parent composed with local) when it has none.
\<close>

theorem inputLayerToDisplay_uses_absolute_transform:
  "inputLayerToDisplay e screenToDisplay snapshot =
     t_mul (geom e) screenToDisplay
       (if sn_hasBufferOrSidebandStream e snapshot then parentTransform snapshot
        else geomLayerTransform snapshot)"
  by (simp add: inputLayerToDisplay_def getInputTransform_def)

text \<open>
  The statement with the local transform fails: \<open>c2_snapshot\<close> has no content, and its
  layer-to-display transform under the identity screen transform is the translation by
  \<open>(15, 5)\<close>, not the local translation by \<open>(5, 5)\<close>.
\<close>

theorem inputLayerToDisplay_not_local_transform:
  "\<not> sn_hasBufferOrSidebandStream ex_env c2_snapshot \<and>
   inputLayerToDisplay ex_env (1, 1, 0, 0) c2_snapshot = (1, 1, 15, 5) \<and>
   t_mul (geom ex_env) (1, 1, 0, 0) (localTransform c2_snapshot) = (1, 1, 5, 5)"
  by (simp add: inputLayerToDisplay_def getInputTransform_def ex_env_def ex_geom_def
      c2_snapshot_def ex_snapshot_def x_mul_def)

section \<open>Invalid transforms\<close>




section \<open>Dangling cross-references\<close>

lemma addConfig_input_frame:
  "touchableRegion (inputInfo (addConfig f s)) = touchableRegion (inputInfo s)"
  "replaceTouchableRegionWithCrop (inputInfo (addConfig f s)) =
     replaceTouchableRegionWithCrop (inputInfo s)"
  "isSecure (addConfig f s) = isSecure s"
  by (simp_all add: addConfig_def)

lemma handleDropInputMode_input_frame:
  "touchableRegion (inputInfo (handleDropInputMode e s p)) = touchableRegion (inputInfo s)"
  "replaceTouchableRegionWithCrop (inputInfo (handleDropInputMode e s p)) =
     replaceTouchableRegionWithCrop (inputInfo s)"
  "transformedBounds (handleDropInputMode e s p) = transformedBounds s"
  by (simp_all add: handleDropInputMode_def Let_def addConfig_input_frame addConfig_frame)

lemma setTouchableRegion_sel:
  "touchableRegion (inputInfo (setTouchableRegion r s)) = r"
  by (simp add: setTouchableRegion_def)

lemma getSnapshotById_missing:
  "layerId = UNASSIGNED_LAYER_ID e \<or> mIdToSnapshot b (defaultPath e layerId) = None \<Longrightarrow>
   getSnapshotById e b a cur layerId = None"
  by (auto simp: getSnapshotById_def getSnapshot_def)

lemma applyTouchCrop_missing:
  assumes "touchCropId requested = UNASSIGNED_LAYER_ID e \<or>
           mIdToSnapshot b (defaultPath e (touchCropId requested)) = None"
  shows "touchableRegion (inputInfo (applyTouchCrop e b a d requested s)) =
     (if replaceTouchableRegionWithCrop (inputInfo s)
      then r_ofRect (geom e) (t_rect (geom e) (di_transform d)
             (rect_of_frect (geom e) (transformedBounds s)))
      else touchableRegion (inputInfo s))"
  using getSnapshotById_missing [OF assms, of a s]
  by (simp add: applyTouchCrop_def Let_def setTouchableRegion_sel)

lemma applyCloneCrop_missing:
  assumes "isClone p \<longrightarrow> last (mirrorRootIds p) = UNASSIGNED_LAYER_ID e \<or>
           mIdToSnapshot b (defaultPath e (last (mirrorRootIds p))) = None"
  shows "touchableRegion (inputInfo (applyCloneCrop e b a d p s)) = touchableRegion (inputInfo s)"
proof (cases "isClone p")
  case True
  with assms have "getSnapshotById e b a (addConfig CLONE s) (last (mirrorRootIds p)) = None"
    by (intro getSnapshotById_missing) simp
  with True show ?thesis
    by (simp add: applyCloneCrop_def Let_def addConfig_input_frame)
next
  case False
  then show ?thesis by (simp add: applyCloneCrop_def Let_def)
qed

lemma prepareInput_input_frame:
  "replaceTouchableRegionWithCrop (inputInfo (prepareInput e s0 requested parent d nvd)) =
     replaceTouchableRegionWithCrop (inputInfo s0)"
  by (simp add: prepareInput_def Let_def setInputConfig_def addConfig_def
      fillInputFrameInfo_def)

text \<open>
  When neither reference resolves, the touchable region that \<^verbatim>\<open>updateInput\<close> leaves is
  the layer's own: its transformed bounds if the region is replaced by the crop, and the
  region computed with the input frame otherwise.
\<close>

lemma updateInput_dangling_both:
  assumes "rq_hasInputInfo e requested"
    and "touchCropId requested = UNASSIGNED_LAYER_ID e \<or>
         mIdToSnapshot b (defaultPath e (touchCropId requested)) = None"
    and "isClone p \<longrightarrow> last (mirrorRootIds p) = UNASSIGNED_LAYER_ID e \<or>
         mIdToSnapshot b (defaultPath e (last (mirrorRootIds p))) = None"
  shows "touchableRegion (inputInfo (updateInput e b a snapshot requested parent d nvd p)) =
     (if replaceTouchableRegionWithCrop (inputInfo snapshot)
      then r_ofRect (geom e) (t_rect (geom e) (di_transform d)
             (rect_of_frect (geom e) (transformedBounds snapshot)))
      else touchableRegion (inputInfo
             (prepareInput e
                (snapshot\<lparr>inputInfo := (inputInfo snapshot)\<lparr>displayId :=
                    word_of_nat (layerStack snapshot)\<rparr>\<rparr>)
                requested parent d nvd)))"
  using assms(1)
  by (simp add: updateInput_def Let_def applyCloneCrop_missing [OF assms(3)]
      applyTouchCrop_missing [OF assms(2)] addConfig_input_frame addConfig_frame
      handleDropInputMode_input_frame prepareInput_input_frame prepareInput_frame)

text \<open>
  C9. A touch-crop target that has no snapshot in the store (\<^verbatim>\<open>getSnapshot\<close> returns
  null for it) is not used: the touch-crop step leaves the touchable region as it is, or,
  when the region is to be replaced by the crop, replaces it by the layer's own
  transformed bounds. A mirror root that has no snapshot is not used either: the clone
  step leaves the touchable region as it is. Both steps are total functions.
\<close>

theorem updateInput_ignores_dangling_references:
  "(touchCropId requested = UNASSIGNED_LAYER_ID e \<or>
    mIdToSnapshot b (defaultPath e (touchCropId requested)) = None \<longrightarrow>
    touchableRegion (inputInfo (applyTouchCrop e b a d requested s)) =
      (if replaceTouchableRegionWithCrop (inputInfo s)
       then r_ofRect (geom e) (t_rect (geom e) (di_transform d)
              (rect_of_frect (geom e) (transformedBounds s)))
       else touchableRegion (inputInfo s))) \<and>
   (isClone p \<and> mIdToSnapshot b (defaultPath e (last (mirrorRootIds p))) = None \<longrightarrow>
    touchableRegion (inputInfo (applyCloneCrop e b a d p s)) = touchableRegion (inputInfo s))"
  using applyTouchCrop_missing [of requested e b a d s] applyCloneCrop_missing [of p e b a d s]
  by blast

theorem updateInput_ignores_dangling_references_witness:
  "mIdToSnapshot ex_builder (defaultPath ex_env (touchCropId w9_requested)) = None \<and>
   isClone w9_path \<and>
   mIdToSnapshot ex_builder (defaultPath ex_env (last (mirrorRootIds w9_path))) = None \<and>
   touchableRegion (inputInfo (applyTouchCrop ex_env ex_builder 0 ex_display w9_requested
     w9_snapshot)) = [ex_rect 0 0 10 10] \<and>
   touchableRegion (inputInfo (applyCloneCrop ex_env ex_builder 0 ex_display w9_path
     w9_snapshot)) = [ex_rect 0 0 10 10]"
proof -
  have m: "mIdToSnapshot ex_builder = (\<lambda>p. None)"
    by (simp add: ex_builder_def)
  have c: "isClone w9_path"
    by (simp add: isClone_def w9_path_def)
  have s: "touchableRegion (inputInfo w9_snapshot) = [ex_rect 0 0 10 10]"
    "\<not> replaceTouchableRegionWithCrop (inputInfo w9_snapshot)"
    by (simp_all add: w9_snapshot_def ex_windowInfo_def)
  from updateInput_ignores_dangling_references [where b = ex_builder and e = ex_env
      and requested = w9_requested and p = w9_path and s = w9_snapshot and a = 0
      and d = ex_display] m c s
  show ?thesis by simp
qed

section \<open>The early return for hidden layers\<close>

lemma hidden_frame:
  "isHiddenByPolicyFromParent (updateInherited e s r p) = isHiddenByPolicyFromParent s"
  "isHiddenByPolicyFromParent (updateContent e s r) = isHiddenByPolicyFromParent s"
  "isHiddenByPolicyFromParent (updateLayerBounds e s r p fl) = isHiddenByPolicyFromParent s"
  "isHiddenByPolicyFromParent (updateRoundedCorner e s r p) = isHiddenByPolicyFromParent s"
  "isHiddenByPolicyFromParent (updateShadows e s r gs) = isHiddenByPolicyFromParent s"
  "isHiddenByPolicyFromParent (updateComputed e s ar r p) = isHiddenByPolicyFromParent s"
  "isHiddenByPolicyFromParent (addConfig f s) = isHiddenByPolicyFromParent s"
  "isHiddenByPolicyFromParent (setInputConfig f v s) = isHiddenByPolicyFromParent s"
  "isHiddenByPolicyFromParent (setTouchableRegion rg s) = isHiddenByPolicyFromParent s"
  by (simp_all add: updateInherited_def updateContent_def updateLayerBounds_def
      updateRoundedCorner_def updateShadows_def updateComputed_def addConfig_def
      setInputConfig_def setTouchableRegion_def Let_def)

lemma hidden_frame_buffer:
  "updateBufferState e s r fl = Some s' \<Longrightarrow>
   isHiddenByPolicyFromParent s' = isHiddenByPolicyFromParent s"
  by (auto simp: updateBufferState_def Let_def split: if_splits option.splits)

lemma hidden_frame_input:
  "isHiddenByPolicyFromParent (handleDropInputMode e s p) = isHiddenByPolicyFromParent s"
  "isHiddenByPolicyFromParent (prepareInput e s r p d nvd) = isHiddenByPolicyFromParent s"
  "isHiddenByPolicyFromParent (applyTouchCrop e b a d r s) = isHiddenByPolicyFromParent s"
  "isHiddenByPolicyFromParent (applyCloneCrop e b a d pa s) = isHiddenByPolicyFromParent s"
  by (simp_all add: handleDropInputMode_def prepareInput_def applyTouchCrop_def
      applyCloneCrop_def Let_def hidden_frame split: option.splits)

lemma hidden_frame_updateInput:
  "isHiddenByPolicyFromParent (updateInput e b a s r p d nvd pa) = isHiddenByPolicyFromParent s"
  by (simp add: updateInput_def Let_def hidden_frame hidden_frame_input)


lemma hidden_frame_gated:
  "isHiddenByPolicyFromParent (gatedInherited e f s r p) = isHiddenByPolicyFromParent s"
  "isHiddenByPolicyFromParent (gatedComposition e f s r) = isHiddenByPolicyFromParent s"
  "isHiddenByPolicyFromParent (gatedContent e f s r) = isHiddenByPolicyFromParent s"
  "isHiddenByPolicyFromParent (gatedGeometry e f s r p fl) = isHiddenByPolicyFromParent s"
  "isHiddenByPolicyFromParent (gatedInput e f b a s ar r p pa) = isHiddenByPolicyFromParent s"
  by (simp_all add: gatedInherited_def gatedComposition_def gatedContent_def gatedGeometry_def
      gatedInput_def Let_def hidden_frame hidden_frame_updateInput)

lemma hidden_frame_gatedBuffer:
  "gatedBuffer e f s r fl = Some s' \<Longrightarrow>
   isHiddenByPolicyFromParent s' = isHiddenByPolicyFromParent s"
  by (auto simp: gatedBuffer_def split: if_splits dest: hidden_frame_buffer)

lemma hidden_frame_resolved:
  assumes "updateResolvedFields e b a s1 args requested parent p = Some s'"
  shows "isHiddenByPolicyFromParent s' = isHiddenByPolicyFromParent s1"
  using assms
  by (auto simp: updateResolvedFields_def Let_def hidden_frame_gated hidden_frame
      split: option.splits dest!: hidden_frame_gatedBuffer)

text \<open>
  C7. After the per-node update the snapshot's hidden-by-policy-from-parent flag is the
  parent's flag or the layer's own policy-hidden flag. When it is set, the update
  returns the old snapshot with four fields written: the accumulated changes (the
  parent's \<^verbatim>\<open>Hierarchy\<close>, \<^verbatim>\<open>Geometry\<close>, \<^verbatim>\<open>Visibility\<close>, \<^verbatim>\<open>Metadata\<close> and
  \<^verbatim>\<open>AffectsChildren\<close> flags together with the layer's own), the hidden flag, the
  content-dirty flag and the visible flag (false). Every other field is the old one.
\<close>

theorem updateSnapshot_hidden:
  "(\<forall>s'. updateSnapshot e b a snapshot args requested parent p = Some s' \<longrightarrow>
      isHiddenByPolicyFromParent s' =
        (isHiddenByPolicyFromParent parent \<or> rq_isHiddenByPolicy e requested)) \<and>
   (isHiddenByPolicyFromParent parent \<or> rq_isHiddenByPolicy e requested \<longrightarrow>
      updateSnapshot e b a snapshot args requested parent p =
        Some (snapshot\<lparr>changes :=
                        changes parent \<inter> {Hierarchy, Geometry, Visibility, Metadata, AffectsChildren}
                          \<union> r_changes requested,
                      isHiddenByPolicyFromParent := True,
                      contentDirty := (what requested AND CONTENT_DIRTY e \<noteq> 0),
                      isVisible := False\<rparr>))"
proof (intro conjI allI impI)
  fix s'
  assume "updateSnapshot e b a snapshot args requested parent p = Some s'"
  then show "isHiddenByPolicyFromParent s' =
        (isHiddenByPolicyFromParent parent \<or> rq_isHiddenByPolicy e requested)"
    by (auto simp: updateSnapshot_def Let_def split: if_splits dest!: hidden_frame_resolved)
next
  assume "isHiddenByPolicyFromParent parent \<or> rq_isHiddenByPolicy e requested"
  then show "updateSnapshot e b a snapshot args requested parent p =
        Some (snapshot\<lparr>changes :=
                        changes parent \<inter> {Hierarchy, Geometry, Visibility, Metadata, AffectsChildren}
                          \<union> r_changes requested,
                      isHiddenByPolicyFromParent := True,
                      contentDirty := (what requested AND CONTENT_DIRTY e \<noteq> 0),
                      isVisible := False\<rparr>)"
    by (simp add: updateSnapshot_def Let_def propagatingChanges_def)
qed

lemma w7_sel:
  "\<not> isHiddenByPolicyFromParent w7_parent"
  "isHiddenByPolicyFromParent w7_hidden_parent"
  "changes w7_parent = {Geometry, Content}"
  "changes w7_hidden_parent = {Geometry, Content}"
  "r_changes w7_requested = {Content, Buffer}"
  "what w7_requested = 1"
  "flags w7_requested = 1"
  "r_changes w7_shown_requested = {Content, Buffer}"
  "what w7_shown_requested = 1"
  "flags w7_shown_requested = 0"
  by (simp_all add: w7_parent_def w7_hidden_parent_def w7_requested_def
      w7_shown_requested_def ex_snapshot_def ex_requested_def)

lemma w7_changes:
  "{Geometry, Content} \<inter> {Hierarchy, Geometry, Visibility, Metadata, AffectsChildren}
     \<union> {Content, Buffer} = {Content, Buffer, Geometry}"
  by auto

theorem updateSnapshot_hidden_witness:
  "updateSnapshot ex_env ex_builder 0 w7_snapshot ex_args w7_requested w7_parent (ex_path 5) =
     Some (w7_snapshot\<lparr>changes := {Content, Buffer, Geometry},
                       isHiddenByPolicyFromParent := True,
                       contentDirty := True, isVisible := False\<rparr>) \<and>
   updateSnapshot ex_env ex_builder 0 w7_snapshot ex_args w7_shown_requested w7_hidden_parent
       (ex_path 5) =
     Some (w7_snapshot\<lparr>changes := {Content, Buffer, Geometry},
                       isHiddenByPolicyFromParent := True,
                       contentDirty := True, isVisible := False\<rparr>)"
proof -
  have own: "rq_isHiddenByPolicy ex_env w7_requested"
    by (simp add: ex_env_sel w7_sel)
  have dirty: "what w7_requested AND CONTENT_DIRTY ex_env \<noteq> 0"
    "what w7_shown_requested AND CONTENT_DIRTY ex_env \<noteq> 0"
    by (simp_all add: ex_env_sel w7_sel)
  from updateSnapshot_hidden [where e = ex_env and b = ex_builder and a = 0
      and snapshot = w7_snapshot and args = ex_args and requested = w7_requested
      and parent = w7_parent and p = "ex_path 5", THEN conjunct2] own
  have 1: "updateSnapshot ex_env ex_builder 0 w7_snapshot ex_args w7_requested w7_parent
      (ex_path 5) =
     Some (w7_snapshot\<lparr>changes := {Content, Buffer, Geometry},
                       isHiddenByPolicyFromParent := True,
                       contentDirty := True, isVisible := False\<rparr>)"
    using dirty by (simp add: w7_sel w7_changes)
  from updateSnapshot_hidden [where e = ex_env and b = ex_builder and a = 0
      and snapshot = w7_snapshot and args = ex_args and requested = w7_shown_requested
      and parent = w7_hidden_parent and p = "ex_path 5", THEN conjunct2]
  have 2: "updateSnapshot ex_env ex_builder 0 w7_snapshot ex_args w7_shown_requested
      w7_hidden_parent (ex_path 5) =
     Some (w7_snapshot\<lparr>changes := {Content, Buffer, Geometry},
                       isHiddenByPolicyFromParent := True,
                       contentDirty := True, isVisible := False\<rparr>)"
    using dirty by (simp add: w7_sel w7_changes)
  from 1 2 show ?thesis by (rule conjI)
qed

section \<open>The z-order pass\<close>






















section \<open>The root bounds\<close>

lemma getMaxDisplayBounds_empty:
  "getMaxDisplayBounds e [] =
     \<lparr>fleft = - (size_to_real (geom e) 5000 * 10), ftop = - (size_to_real (geom e) 5000 * 10),
      fright = size_to_real (geom e) 5000 * 10, fbottom = size_to_real (geom e) 5000 * 10\<rparr>"
  by (simp add: getMaxDisplayBounds_def Let_def)

lemma sint_max_i32: "sint (max_i32 a b) = max (sint a) (sint b)"
  by (simp add: max_i32_def max_def)

lemma foldl_max_size:
  "sint (fst (foldl (\<lambda>size pair. (max_i32 (fst size) (logicalWidth (snd pair)),
                      max_i32 (snd size) (logicalHeight (snd pair)))) acc ds)) =
     fold max (map (\<lambda>pair. sint (logicalWidth (snd pair))) ds) (sint (fst acc))"
  "sint (snd (foldl (\<lambda>size pair. (max_i32 (fst size) (logicalWidth (snd pair)),
                      max_i32 (snd size) (logicalHeight (snd pair)))) acc ds)) =
     fold max (map (\<lambda>pair. sint (logicalHeight (snd pair))) ds) (sint (snd acc))"
  by (induction ds arbitrary: acc) (simp_all add: sint_max_i32 max.commute)

lemma getMaxDisplayBounds_max:
  assumes "ds \<noteq> []" "kEmptySize e = (0, 0)"
    and "size_to_real (geom e) = (\<lambda>w. real_of_int (sint w))"
  shows "getMaxDisplayBounds e ds =
     (let W = Max (insert 0 (set (map (\<lambda>pair. sint (logicalWidth (snd pair))) ds)));
          H = Max (insert 0 (set (map (\<lambda>pair. sint (logicalHeight (snd pair))) ds)))
      in \<lparr>fleft = - (10 * real_of_int W), ftop = - (10 * real_of_int H),
          fright = 10 * real_of_int W, fbottom = 10 * real_of_int H\<rparr>)"
proof -
  let ?f = "\<lambda>size pair. (max_i32 (fst size) (logicalWidth (snd pair)),
                          max_i32 (snd size) (logicalHeight (snd pair)))"
  have W: "sint (fst (foldl ?f (0, 0) ds)) =
      Max (insert 0 (set (map (\<lambda>pair. sint (logicalWidth (snd pair))) ds)))"
    using Max.set_eq_fold [of 0 "map (\<lambda>pair. sint (logicalWidth (snd pair))) ds"]
    by (simp add: foldl_max_size)
  have H: "sint (snd (foldl ?f (0, 0) ds)) =
      Max (insert 0 (set (map (\<lambda>pair. sint (logicalHeight (snd pair))) ds)))"
    using Max.set_eq_fold [of 0 "map (\<lambda>pair. sint (logicalHeight (snd pair))) ds"]
    by (simp add: foldl_max_size)
  have conv: "size_to_real (geom e) w = real_of_int (sint w)" for w
    using assms(3) by (rule fun_cong)
  show ?thesis
    using assms(1,2)
    by (simp add: getMaxDisplayBounds_def Let_def conv W H del: of_int_sint)
qed

lemma c10_bounds:
  "geomLayerBounds (mRootSnapshot c10_builder) = ex_frect (-50000) (-50000) 50000 50000"
  by (simp add: c10_builder_def getRootSnapshot_def getMaxDisplayBounds_empty ex_env_sel
      ex_geom_sel ex_frect_def)

lemma c10_wanted:
  "getMaxDisplayBounds ex_env (displays c10_args) = ex_frect (-10800) (-19200) 10800 19200"
  by (simp add: c10_args_def ex_args_def getMaxDisplayBounds_def Let_def ex_env_def ex_geom_def
      ex_display_def max_i32_def ex_frect_def)

text \<open>
  C10. An update that is not forced and carries no layer change returns on the fast path
  before the root bounds are recomputed, also when the displays changed: with a display
  of 1080 by 1920 registered, \<^verbatim>\<open>update\<close> leaves the builder as it is, with the default
  root bounds of 50000 in every direction instead of \<open>(-10800, -19200, 10800, 19200)\<close>.
\<close>

theorem update_skips_root_bounds:
  "\<not> forceUpdate c10_args \<and> displayChanges c10_args \<and>
   update ex_env c10_args c10_builder = Some c10_builder \<and>
   geomLayerBounds (mRootSnapshot c10_builder) = ex_frect (-50000) (-50000) 50000 50000 \<and>
   getMaxDisplayBounds ex_env (displays c10_args) = ex_frect (-10800) (-19200) 10800 19200"
proof -
  have a: "\<not> forceUpdate c10_args" "displayChanges c10_args" "globalChanges c10_args = {}"
    by (simp_all add: c10_args_def ex_args_def)
  have m: "mSnapshots c10_builder = []"
    by (simp add: c10_builder_def ex_builder_def)
  have "update ex_env c10_args c10_builder = Some c10_builder"
    by (simp add: update_def tryFastUpdate_def a m)
  then show ?thesis using a c10_bounds c10_wanted by simp
qed

end
